theory Spec2Isabelle
  imports Complex_Main
begin

section \<open>JavaScript strings and values\<close>

text \<open>
  Strings are byte strings (UTF-8). Numbers are modelled by exact reals, timestamps by
  integer milliseconds since the epoch.

  \<open>String.prototype.toLowerCase\<close> belongs to the JavaScript runtime, not to the
  repository: it lowercases every letter of Unicode and depends on the context of a
  letter (a capital sigma becomes the small sigma or, at the end of a word, the final
  sigma). Every function
  below that calls it takes it as its parameter \<open>toLowerCase\<close>, so that what is proved
  of it holds for the runtime's function; what a theorem needs of it is a hypothesis of
  that theorem. On a string of ASCII characters it is \<open>ascii_lower\<close>: the letters A to Z
  go to a to z and nothing else changes.
\<close>

definition lower_char :: "char \<Rightarrow> char" where
  "lower_char c =
     (case map_of (zip ''ABCDEFGHIJKLMNOPQRSTUVWXYZ'' ''abcdefghijklmnopqrstuvwxyz'') c of
        None \<Rightarrow> c
      | Some l \<Rightarrow> l)"

definition ascii_lower :: "string \<Rightarrow> string" where
  "ascii_lower s = map lower_char s"

definition ascii :: "string \<Rightarrow> bool" where
  "ascii s = list_all (\<lambda>c. (of_char c :: nat) < 128) s"

text \<open>
  For concrete inputs: \<open>toLowerCase\<close> on strings of ASCII characters and Greek sigmas.
  The capital sigma (bytes CE A3) becomes the final sigma (CF 82) when a cased letter
  comes before it and none comes after it, and the small sigma (CF 83) otherwise; this
  is the Final_Sigma rule of Unicode's special casing, which the language standard
  prescribes for \<open>toLowerCase\<close>.
\<close>

definition cased :: "char \<Rightarrow> bool" where
  "cased c = (c \<in> set ''abcdefghijklmnopqrstuvwxyzABCDEFGHIJKLMNOPQRSTUVWXYZ'')"

fun starts_cased :: "string \<Rightarrow> bool" where
  "starts_cased [] = False"
| "starts_cased (c # cs) = (cased c \<or> c = CHR 0xCE \<or> c = CHR 0xCF)"

fun lower_from :: "bool \<Rightarrow> string \<Rightarrow> string" where
  "lower_from prev [] = []"
| "lower_from prev [c] = [lower_char c]"
| "lower_from prev (c # d # cs) =
     (if c = CHR 0xCE \<and> d = CHR 0xA3 then
        (if prev \<and> \<not> starts_cased cs then [CHR 0xCF, CHR 0x82] else [CHR 0xCF, CHR 0x83])
        @ lower_from True cs
      else lower_char c # lower_from (cased c) (d # cs))"

definition lower_with_final_sigma :: "string \<Rightarrow> string" where
  "lower_with_final_sigma s = lower_from False s"

fun startsWith :: "string \<Rightarrow> string \<Rightarrow> bool" where
  "startsWith s [] = True"
| "startsWith [] (p # ps) = False"
| "startsWith (c # cs) (p # ps) = (c = p \<and> startsWith cs ps)"

text \<open>\<open>String.prototype.includes\<close>: the needle occurs at some position of the text.\<close>

fun str_includes :: "string \<Rightarrow> string \<Rightarrow> bool" where
  "str_includes [] w = (w = [])"
| "str_includes (c # cs) w = (startsWith (c # cs) w \<or> str_includes cs w)"

text \<open>JavaScript truthiness of a JSON number-or-null, and its conversion to a number.\<close>

fun truthy_num :: "real option \<Rightarrow> bool" where
  "truthy_num None = False"
| "truthy_num (Some d) = (d \<noteq> 0)"

fun to_number :: "real option \<Rightarrow> real" where
  "to_number None = 0"
| "to_number (Some d) = d"

text \<open>\<open>new Date(t).getTime()\<close> for a stored timestamp; \<open>new Date(null)\<close> is the epoch.\<close>

fun date_ms :: "int option \<Rightarrow> int" where
  "date_ms None = 0"
| "date_ms (Some t) = t"

section \<open>Data model\<close>

type_synonym user_id = string

record position =
  x :: real
  y :: real
  z :: real
  facing :: string

record permissions_doc =
  owners :: "user_id list"
  mods :: "user_id list"

record ban_info =
  blocked_commands :: bool
  timestamp :: "int option"
  duration_minutes :: "real option"

record mute_info =
  muted_chat :: bool
  mute_duration_minutes :: "real option"
  mute_timestamp :: "int option"

text \<open>The JSON documents written by \<open>saveJson\<close>, tagged by the file they go to.\<close>

datatype doc =
    RolesFile permissions_doc
  | BannedCommandsFile "user_id \<rightharpoonup> ban_info"
  | MutedMessagesFile "user_id \<rightharpoonup> mute_info"
  | BadWordsFile "string list"
  | FrozenUsersFile "user_id \<rightharpoonup> position"

text \<open>
  The actions issued to the room platform and to the file system, in the order the
  code issues them. Console logging is not modelled.
\<close>

datatype action =
    SendPublic string
  | SendDirect string string
  | SendWhisper user_id string
  | Teleport user_id real real real string
  | EmoteAct user_id string
  | Kick user_id
  | Ban user_id nat
  | Mute user_id nat
  | SaveJson doc

text \<open>The module-level variables of \<open>index.js\<close>, with the trace of issued actions.\<close>

record bot_state =
  permissions :: permissions_doc
  bannedUsers :: "user_id \<rightharpoonup> ban_info"
  mutedUsers :: "user_id \<rightharpoonup> mute_info"
  badWords :: "string list"
  frozenUsers :: "user_id \<rightharpoonup> position"
  out :: "action list"

definition emit :: "action \<Rightarrow> bot_state \<Rightarrow> bot_state" where
  "emit a s = s\<lparr>out := out s @ [a]\<rparr>"

definition saveJson :: "doc \<Rightarrow> bot_state \<Rightarrow> bot_state" where
  "saveJson d s = emit (SaveJson d) s"

section \<open>Permissions and moderation helpers\<close>

datatype role = Basic | Mod | Owner

definition getRole :: "bot_state \<Rightarrow> user_id \<Rightarrow> role" where
  "getRole s userId =
     (if userId \<in> set (owners (permissions s)) then Owner
      else if userId \<in> set (mods (permissions s)) then Mod
      else Basic)"

definition hasPermission :: "bot_state \<Rightarrow> user_id \<Rightarrow> role \<Rightarrow> bool" where
  "hasPermission s userId requiredRole =
     (let userRole = getRole s userId in
      if requiredRole = Basic then True
      else if requiredRole = Mod \<and> (userRole = Mod \<or> userRole = Owner) then True
      else if requiredRole = Owner \<and> userRole = Owner then True
      else False)"

definition isBanned :: "int \<Rightarrow> user_id \<Rightarrow> bot_state \<Rightarrow> bool \<times> bot_state" where
  "isBanned now userId s =
     (case bannedUsers s userId of
        None \<Rightarrow> (False, s)
      | Some banInfo \<Rightarrow>
          if truthy_num (duration_minutes banInfo) then
            (let banTime = date_ms (timestamp banInfo);
                 elapsedMinutes = real_of_int (now - banTime) / (1000 * 60)
             in if elapsedMinutes > to_number (duration_minutes banInfo) then
                  (let s' = s\<lparr>bannedUsers := (bannedUsers s)(userId := None)\<rparr>
                   in (False, saveJson (BannedCommandsFile (bannedUsers s')) s'))
                else (True, s))
          else (True, s))"

definition isMuted :: "int \<Rightarrow> user_id \<Rightarrow> bot_state \<Rightarrow> bool \<times> bot_state" where
  "isMuted now userId s =
     (case mutedUsers s userId of
        None \<Rightarrow> (False, s)
      | Some muteInfo \<Rightarrow>
          (let muteTime = date_ms (mute_timestamp muteInfo);
               elapsedMinutes = real_of_int (now - muteTime) / (1000 * 60)
           in if elapsedMinutes > to_number (mute_duration_minutes muteInfo) then
                (let s' = s\<lparr>mutedUsers := (mutedUsers s)(userId := None)\<rparr>
                 in (False, saveJson (MutedMessagesFile (mutedUsers s')) s'))
              else (True, s)))"

definition addBadWord :: "(string \<Rightarrow> string) \<Rightarrow> string \<Rightarrow> bot_state \<Rightarrow> bool \<times> bot_state" where
  "addBadWord toLowerCase word s =
     (let lowerCaseWord = toLowerCase word in
      if lowerCaseWord \<notin> set (badWords s) then
        (let s' = s\<lparr>badWords := badWords s @ [lowerCaseWord]\<rparr>
         in (True, saveJson (BadWordsFile (badWords s')) s'))
      else (False, s))"

definition removeBadWord :: "(string \<Rightarrow> string) \<Rightarrow> string \<Rightarrow> bot_state \<Rightarrow> bool \<times> bot_state" where
  "removeBadWord toLowerCase word s =
     (let initialLength = length (badWords s);
          lowerCaseWord = toLowerCase word;
          s' = s\<lparr>badWords := filter (\<lambda>w. w \<noteq> lowerCaseWord) (badWords s)\<rparr>
      in if length (badWords s') < initialLength then
           (True, saveJson (BadWordsFile (badWords s')) s')
         else (False, s'))"

fun scan_words :: "string \<Rightarrow> string list \<Rightarrow> bool" where
  "scan_words lowerCaseMessage [] = False"
| "scan_words lowerCaseMessage (word # ws) =
     (if str_includes lowerCaseMessage word then True else scan_words lowerCaseMessage ws)"

definition containsBadWord :: "(string \<Rightarrow> string) \<Rightarrow> bot_state \<Rightarrow> string \<Rightarrow> bool" where
  "containsBadWord toLowerCase s message = scan_words (toLowerCase message) (badWords s)"

section \<open>Configuration and the room platform\<close>

text \<open>
  \<open>config.json\<close> is read at start-up; the fields the code below reads are the fields
  of this record. An emote definition may lack its \<open>id\<close> or its \<open>duration\<close>.
\<close>

record emote_def =
  emote_id :: "string option"
  emote_duration :: "nat option"

record config =
  botPrefix :: string
  public_chat_only :: "string list"
  dm_public_chat :: "string list"
  dm_only :: "string list"
  commandPermissions_mod :: "string list"
  commandPermissions_owner :: "string list"
  emoteDefinitions :: "(string \<times> emote_def) list"
  aiReplyInWhispers :: bool
  movement_enabled :: bool
  y_threshold :: real
  max_distance_teleport :: real
  messageLimits_whisper :: "int option"
  messageLimits_dm :: "int option"

record user =
  uid :: user_id
  username :: string

text \<open>
  What the room platform answers. A roster lookup answers a value or nothing (null); the
  lookup of an id by name may also fail, which the router catches. An action call
  (\<open>teleport\<close>, \<open>emote\<close>, \<open>kick\<close>, \<open>ban\<close>, \<open>mute\<close>) either resolves or is rejected with
  an error message; sending a message is taken to resolve.
\<close>

record bridge =
  bot_user_id :: user_id
  players_get :: "(user \<times> position) list"
  players_id :: "string \<Rightarrow> string + user_id option"
  players_username :: "user_id \<Rightarrow> string option"
  players_position :: "user_id \<Rightarrow> position option"
  cache_position :: "user_id \<Rightarrow> position option"
  action_error :: "action \<Rightarrow> string option"
  getAiResponse :: "string \<Rightarrow> string"

text \<open>A string-or-null as a template string prints it, and the apostrophe.\<close>

definition apostrophe :: string where
  "apostrophe = [CHR 0x27]"


fun shown :: "string option \<Rightarrow> string" where
  "shown None = ''undefined''"
| "shown (Some n) = n"

text \<open>Truthiness of a string-or-null.\<close>

fun truthy_str :: "string option \<Rightarrow> bool" where
  "truthy_str None = False"
| "truthy_str (Some n) = (n \<noteq> [])"

datatype chat_type = Public | DM | Whisper

section \<open>Command handling functions\<close>

definition reply :: "config \<Rightarrow> user \<Rightarrow> string \<Rightarrow> chat_type \<Rightarrow> string option \<Rightarrow> bot_state \<Rightarrow> bot_state" where
  "reply cfg usr message type conversationId s =
     (let maxLength =
            (case (if type = Whisper then messageLimits_whisper cfg else None) of
               Some n \<Rightarrow> n
             | None \<Rightarrow>
                 (case (if type = DM then messageLimits_dm cfg else None) of
                    Some n \<Rightarrow> n
                  | None \<Rightarrow> - 1));
          finalMessage =
            (if maxLength \<noteq> - 1 \<and> int (length message) > maxLength
               then take (nat (maxLength - 3)) message @ ''...''
             else message)
      in if type = Public then emit (SendPublic finalMessage) s
         else if type = DM \<and> truthy_str conversationId
           then emit (SendDirect (shown conversationId) finalMessage) s
         else if type = Whisper then emit (SendWhisper (uid usr) finalMessage) s
         else s)"

definition handleIdBanCommand ::
  "config \<Rightarrow> int \<Rightarrow> user \<Rightarrow> user \<Rightarrow> string option \<Rightarrow> chat_type \<Rightarrow> bot_state \<Rightarrow> bot_state" where
  "handleIdBanCommand cfg now commandSender targetUser conversationId chatType s =
     (if \<not> hasPermission s (uid commandSender) Mod then
        reply cfg commandSender ''You do not have permission to use this command.''
          chatType conversationId s
      else if getRole s (uid targetUser) = Owner \<or> getRole s (uid targetUser) = Mod then
        reply cfg commandSender ''Cannot ban owner/mod.'' chatType conversationId s
      else
        (case isBanned now (uid targetUser) s of
           (True, s1) \<Rightarrow>
             reply cfg commandSender (''@'' @ username targetUser @ '' is already banned.'')
               chatType conversationId s1
         | (False, s1) \<Rightarrow>
             (let s2 = s1\<lparr>bannedUsers := (bannedUsers s1)(uid targetUser \<mapsto>
                          \<lparr>blocked_commands = True, timestamp = None, duration_minutes = None\<rparr>)\<rparr>;
                  s3 = saveJson (BannedCommandsFile (bannedUsers s2)) s2
              in reply cfg commandSender
                   (''@'' @ username targetUser @ '' has been banned from using commands.'')
                   chatType conversationId s3)))"

definition handleIdMuteCommand ::
  "config \<Rightarrow> int \<Rightarrow> user \<Rightarrow> user \<Rightarrow> string option \<Rightarrow> chat_type \<Rightarrow> bot_state \<Rightarrow> bot_state" where
  "handleIdMuteCommand cfg now commandSender targetUser conversationId chatType s =
     (if \<not> hasPermission s (uid commandSender) Mod then
        reply cfg commandSender ''You do not have permission to use this command.''
          chatType conversationId s
      else if getRole s (uid targetUser) = Owner \<or> getRole s (uid targetUser) = Mod then
        reply cfg commandSender ''Cannot mute owner/mod.'' chatType conversationId s
      else
        (case isMuted now (uid targetUser) s of
           (True, s1) \<Rightarrow>
             reply cfg commandSender (''@'' @ username targetUser @ '' is already muted.'')
               chatType conversationId s1
         | (False, s1) \<Rightarrow>
             (let s2 = s1\<lparr>mutedUsers := (mutedUsers s1)(uid targetUser \<mapsto>
                          \<lparr>muted_chat = True, mute_duration_minutes = Some 15,
                           mute_timestamp = Some now\<rparr>)\<rparr>;
                  s3 = saveJson (MutedMessagesFile (mutedUsers s2)) s2
              in reply cfg commandSender
                   (''@'' @ username targetUser @ '' has been muted for 15 minutes.'')
                   chatType conversationId s3)))"

definition handleRoleCommand ::
  "config \<Rightarrow> user \<Rightarrow> user \<Rightarrow> string option \<Rightarrow> chat_type \<Rightarrow> bot_state \<Rightarrow> bot_state" where
  "handleRoleCommand cfg commandSender targetUser conversationId chatType s =
     (if \<not> hasPermission s (uid commandSender) Owner then
        reply cfg commandSender ''You do not have permission to use this command.''
          chatType conversationId s
      else if getRole s (uid targetUser) = Owner then
        reply cfg commandSender ''Cannot change owner's role.'' chatType conversationId s
      else if uid targetUser \<in> set (mods (permissions s)) then
        reply cfg commandSender (''@'' @ username targetUser @ '' is already a mod.'')
          chatType conversationId s
      else
        (let s1 = s\<lparr>permissions := (permissions s)\<lparr>mods := mods (permissions s) @ [uid targetUser]\<rparr>\<rparr>;
             s2 = saveJson (RolesFile (permissions s1)) s1
         in reply cfg commandSender
              (''@'' @ username targetUser @ '' has been assigned the 'mod' role.'')
              chatType conversationId s2))"

definition handleUnroleCommand ::
  "config \<Rightarrow> user \<Rightarrow> user \<Rightarrow> string option \<Rightarrow> chat_type \<Rightarrow> bot_state \<Rightarrow> bot_state" where
  "handleUnroleCommand cfg commandSender targetUser conversationId chatType s =
     (if \<not> hasPermission s (uid commandSender) Owner then
        reply cfg commandSender ''You do not have permission to use this command.''
          chatType conversationId s
      else if getRole s (uid targetUser) = Owner then
        reply cfg commandSender ''Cannot change owner's role.'' chatType conversationId s
      else if uid targetUser \<in> set (mods (permissions s)) then
        (let s1 = s\<lparr>permissions := (permissions s)\<lparr>mods := remove1 (uid targetUser) (mods (permissions s))\<rparr>\<rparr>;
             s2 = saveJson (RolesFile (permissions s1)) s1
         in reply cfg commandSender
              (''@'' @ username targetUser @ '' has been removed from the 'mod' role.'')
              chatType conversationId s2)
      else
        reply cfg commandSender (''@'' @ username targetUser @ '' is not a mod.'')
          chatType conversationId s)"

text \<open>
  \<open>splice(indexOf(x), 1)\<close> takes out the first occurrence of \<open>x\<close>, which is \<open>remove1\<close>.
\<close>

definition handleAddOwnerCommand ::
  "config \<Rightarrow> user \<Rightarrow> user \<Rightarrow> string option \<Rightarrow> bot_state \<Rightarrow> bot_state" where
  "handleAddOwnerCommand cfg commandSender targetUser conversationId s =
     (if \<not> hasPermission s (uid commandSender) Owner then
        reply cfg commandSender ''You must be an owner to use this command.'' DM conversationId s
      else if uid targetUser \<in> set (owners (permissions s)) then
        reply cfg commandSender (''@'' @ username targetUser @ '' is already an owner.'')
          DM conversationId s
      else
        (let s1 = s\<lparr>permissions := (permissions s)\<lparr>owners := owners (permissions s) @ [uid targetUser]\<rparr>\<rparr>;
             s2 = (if uid targetUser \<in> set (mods (permissions s1))
                   then s1\<lparr>permissions := (permissions s1)\<lparr>mods := remove1 (uid targetUser) (mods (permissions s1))\<rparr>\<rparr>
                   else s1);
             s3 = saveJson (RolesFile (permissions s2)) s2
         in reply cfg commandSender
              (''@'' @ username targetUser @ '' has been assigned the 'owner' role.'')
              DM conversationId s3))"

definition handleRemoveOwnerCommand ::
  "config \<Rightarrow> user \<Rightarrow> user \<Rightarrow> string option \<Rightarrow> bot_state \<Rightarrow> bot_state" where
  "handleRemoveOwnerCommand cfg commandSender targetUser conversationId s =
     (if \<not> hasPermission s (uid commandSender) Owner \<or> uid commandSender = uid targetUser then
        reply cfg commandSender
          ''You must be an owner to use this command, and cannot remove yourself.''
          DM conversationId s
      else if uid targetUser \<in> set (owners (permissions s)) then
        (let s1 = s\<lparr>permissions := (permissions s)\<lparr>owners := remove1 (uid targetUser) (owners (permissions s))\<rparr>\<rparr>;
             s2 = saveJson (RolesFile (permissions s1)) s1
         in reply cfg commandSender
              (''@'' @ username targetUser @ '' has been removed from the 'owner' role.'')
              DM conversationId s2)
      else
        reply cfg commandSender (''@'' @ username targetUser @ '' is not an owner.'')
          DM conversationId s)"

text \<open>
  An action call inside \<open>try\<close>: the call is issued; when the platform rejects it the
  \<open>catch\<close> branch runs with the error message, otherwise the rest of the \<open>try\<close> block.
\<close>

definition attempt ::
  "bridge \<Rightarrow> action \<Rightarrow> (bot_state \<Rightarrow> bot_state) \<Rightarrow> (string \<Rightarrow> bot_state \<Rightarrow> bot_state)
     \<Rightarrow> bot_state \<Rightarrow> bot_state" where
  "attempt br a onResolve onReject s =
     (case action_error br a of
        None \<Rightarrow> onResolve (emit a s)
      | Some message \<Rightarrow> onReject message (emit a s))"

definition handleSummonCommand :: "bridge \<Rightarrow> user \<Rightarrow> string \<Rightarrow> bot_state \<Rightarrow> bot_state" where
  "handleSummonCommand br commandSender targetUsername s =
     (case players_id br targetUsername of
        Inl e \<Rightarrow> s
      | Inr None \<Rightarrow>
          emit (SendPublic (''@'' @ username commandSender @ '' User '' @ apostrophe
                  @ targetUsername @ apostrophe @ '' not found.'')) s
      | Inr (Some targetUserId) \<Rightarrow>
          if getRole s targetUserId = Owner \<or> getRole s targetUserId = Mod then
            emit (SendPublic (''@'' @ username commandSender @ '' Cannot summon owner/mod.'')) s
          else
            (case players_position br (uid commandSender) of
               Some senderPosition \<Rightarrow>
                 attempt br
                   (Teleport targetUserId (x senderPosition) (y senderPosition)
                      (z senderPosition) (facing senderPosition))
                   (emit (SendPublic (''@'' @ username commandSender @ '' Summoned ''
                            @ targetUsername @ '' to your location.'')))
                   (\<lambda>message. emit (SendPublic (''@'' @ username commandSender
                            @ '' Failed to summon '' @ targetUsername @ '': '' @ message)))
                   s
             | None \<Rightarrow>
                 emit (SendPublic (''@'' @ username commandSender
                         @ '' Could not find your current position.'')) s))"

definition handleFreezeCommand :: "bridge \<Rightarrow> user \<Rightarrow> user_id \<Rightarrow> bot_state \<Rightarrow> bot_state" where
  "handleFreezeCommand br commandSender targetUserId s =
     (let targetUsername = shown (players_username br targetUserId) in
      if getRole s targetUserId = Owner \<or> getRole s targetUserId = Mod
         \<or> targetUserId = bot_user_id br then
        emit (SendPublic (''@'' @ username commandSender @ '' Cannot freeze owner/mod/bot.'')) s
      else
        (case players_position br targetUserId of
           Some initialPosition \<Rightarrow>
             (let s1 = s\<lparr>frozenUsers := (frozenUsers s)(targetUserId \<mapsto> initialPosition)\<rparr>;
                  s2 = saveJson (FrozenUsersFile (frozenUsers s1)) s1
              in emit (SendPublic (''@'' @ username commandSender @ '' '' @ targetUsername
                         @ '' has been frozen at their current location.'')) s2)
         | None \<Rightarrow>
             emit (SendPublic (''@'' @ username commandSender @ '' Could not find ''
                     @ targetUsername @ apostrophe @ ''s current position to freeze.'')) s))"

definition handleUnfreezeCommand :: "bridge \<Rightarrow> user \<Rightarrow> user_id \<Rightarrow> bot_state \<Rightarrow> bot_state" where
  "handleUnfreezeCommand br commandSender targetUserId s =
     (case frozenUsers s targetUserId of
        None \<Rightarrow> emit (SendPublic (''@'' @ username commandSender @ '' User is not frozen.'')) s
      | Some lockedPos \<Rightarrow>
          (let targetUsername = shown (players_username br targetUserId);
               s1 = s\<lparr>frozenUsers := (frozenUsers s)(targetUserId := None)\<rparr>;
               s2 = saveJson (FrozenUsersFile (frozenUsers s1)) s1
           in emit (SendPublic (''@'' @ username commandSender @ '' '' @ targetUsername
                      @ '' has been unfrozen.'')) s2))"

definition handleKickCommand :: "bridge \<Rightarrow> user \<Rightarrow> user_id \<Rightarrow> bot_state \<Rightarrow> bot_state" where
  "handleKickCommand br commandSender targetUserId s =
     (let targetUsername = shown (players_username br targetUserId) in
      if getRole s targetUserId = Owner \<or> getRole s targetUserId = Mod
         \<or> targetUserId = bot_user_id br then
        emit (SendPublic (''@'' @ username commandSender @ '' Cannot kick owner/mod/bot.'')) s
      else
        attempt br (Kick targetUserId)
          (emit (SendPublic (''@'' @ username commandSender @ '' Kicked '' @ targetUsername
                   @ '' from the room.'')))
          (\<lambda>message. emit (SendPublic (''@'' @ username commandSender @ '' Failed to kick ''
                   @ targetUsername @ '': '' @ message)))
          s)"

definition handleBanCommand :: "bridge \<Rightarrow> user \<Rightarrow> user_id \<Rightarrow> bot_state \<Rightarrow> bot_state" where
  "handleBanCommand br commandSender targetUserId s =
     (let targetUsername = shown (players_username br targetUserId) in
      if getRole s targetUserId = Owner \<or> getRole s targetUserId = Mod
         \<or> targetUserId = bot_user_id br then
        emit (SendPublic (''@'' @ username commandSender @ '' Cannot ban owner/mod/bot.'')) s
      else
        attempt br (Ban targetUserId 3600)
          (emit (SendPublic (''@'' @ username commandSender @ '' Banned '' @ targetUsername
                   @ '' for 1 hour.'')))
          (\<lambda>message. emit (SendPublic (''@'' @ username commandSender @ '' Failed to ban ''
                   @ targetUsername @ '': '' @ message)))
          s)"

definition handleMuteCommand :: "bridge \<Rightarrow> user \<Rightarrow> user_id \<Rightarrow> bot_state \<Rightarrow> bot_state" where
  "handleMuteCommand br commandSender targetUserId s =
     (let targetUsername = shown (players_username br targetUserId) in
      if getRole s targetUserId = Owner \<or> getRole s targetUserId = Mod
         \<or> targetUserId = bot_user_id br then
        emit (SendPublic (''@'' @ username commandSender @ '' Cannot mute owner/mod/bot.'')) s
      else
        attempt br (Mute targetUserId 3600)
          (emit (SendPublic (''@'' @ username commandSender @ '' Muted '' @ targetUsername
                   @ '' for 1 hour.'')))
          (\<lambda>message. emit (SendPublic (''@'' @ username commandSender @ '' Failed to mute ''
                   @ targetUsername @ '': '' @ message)))
          s)"

section \<open>The position guard\<close>

definition playerMove :: "config \<Rightarrow> bridge \<Rightarrow> user \<Rightarrow> position \<Rightarrow> bot_state \<Rightarrow> bot_state" where
  "playerMove cfg br usr newPosition s =
     (if movement_enabled cfg \<and> uid usr \<noteq> bot_user_id br then
        (case frozenUsers s (uid usr) of
           Some lockedPos \<Rightarrow>
             (let tolerance = 1 / 100;
                  movedFromLocked =
                    (\<bar>x newPosition - x lockedPos\<bar> > tolerance
                     \<or> \<bar>y newPosition - y lockedPos\<bar> > tolerance
                     \<or> \<bar>z newPosition - z lockedPos\<bar> > tolerance)
              in if movedFromLocked then
                   emit (Teleport (uid usr) (x lockedPos) (y lockedPos) (z lockedPos)
                           (facing lockedPos)) s
                 else s)
         | None \<Rightarrow>
             (case cache_position br (uid usr) of
                Some lastKnownPos \<Rightarrow>
                  (let deltaY = \<bar>y newPosition - y lastKnownPos\<bar>;
                       distance = sqrt ((x newPosition - x lastKnownPos)\<^sup>2
                                        + (y newPosition - y lastKnownPos)\<^sup>2
                                        + (z newPosition - z lastKnownPos)\<^sup>2)
                   in if deltaY > y_threshold cfg \<or> distance > max_distance_teleport cfg then
                        emit (Teleport (uid usr) (x newPosition) (y newPosition) (z newPosition)
                                (facing newPosition)) s
                      else s)
              | None \<Rightarrow> s))
      else s)"

section \<open>The command router\<close>

text \<open>
  String helpers of the router: \<open>trim\<close>, \<open>split(/ +/)\<close> (which never returns an empty
  array), and the pattern \<open>/^(\w+)\s+@(\w+)$/\<close> of the bare \<open>emote @user\<close> message.
\<close>

definition js_space :: "char \<Rightarrow> bool" where
  "js_space c = (c \<in> set [CHR 0x20, CHR 0x09, CHR 0x0A, CHR 0x0B, CHR 0x0C, CHR 0x0D])"

definition word_char :: "char \<Rightarrow> bool" where
  "word_char c =
     (c \<in> set ''abcdefghijklmnopqrstuvwxyzABCDEFGHIJKLMNOPQRSTUVWXYZ0123456789_'')"

definition trim :: "string \<Rightarrow> string" where
  "trim s = rev (dropWhile js_space (rev (dropWhile js_space s)))"

fun split_from :: "bool \<Rightarrow> string \<Rightarrow> string \<Rightarrow> string list" where
  "split_from inSeparator cur [] = [rev cur]"
| "split_from inSeparator cur (c # cs) =
     (if c = CHR '' '' then
        (if inSeparator then split_from True cur cs else rev cur # split_from True [] cs)
      else split_from False (c # cur) cs)"

definition split_spaces :: "string \<Rightarrow> string list" where
  "split_spaces s = split_from False [] s"

definition emoteRegex :: "string \<Rightarrow> (string \<times> string) option" where
  "emoteRegex s =
     (let w1 = takeWhile word_char s;
          r1 = dropWhile word_char s;
          r2 = dropWhile js_space r1
      in if w1 \<noteq> [] \<and> takeWhile js_space r1 \<noteq> [] \<and> startsWith r2 ''@''
            \<and> drop 1 r2 \<noteq> [] \<and> list_all word_char (drop 1 r2)
         then Some (w1, drop 1 r2)
         else None)"

text \<open>
  \<open>args = message.slice(prefix.length).trim().split(/ +/)\<close>, \<open>command = args.shift()\<close>
  lowercased, and the target name when the next argument starts with \<open>@\<close>.
\<close>

definition parse_command ::
  "(string \<Rightarrow> string) \<Rightarrow> config \<Rightarrow> string \<Rightarrow> string \<times> string list \<times> string option" where
  "parse_command toLowerCase cfg message =
     (case split_spaces (trim (drop (length (botPrefix cfg)) message)) of
        [] \<Rightarrow> ([], [], None)
      | first # args \<Rightarrow>
          (toLowerCase first, args,
           (case args of
              [] \<Rightarrow> None
            | a # rest \<Rightarrow> if a \<noteq> [] \<and> startsWith a ''@'' then Some (drop 1 a) else None)))"

text \<open>
  How a chat event leaves the router. \<open>Loop\<close> is the call of \<open>handleEmoteLoopCommand\<close>
  and \<open>Dispatched\<close> the case of the \<open>switch\<close> for a command, with the arguments, the
  target name and the target id; the replies the router itself sends are in the state.
\<close>

datatype route =
    Ignored
  | BadWord
  | BareEmote
  | NoEmotePermission
  | Loop user string
  | TargetNotFound
  | TargetLookupFailed
  | WrongChannel
  | InsufficientRole
  | Dispatched string "string list" "string option" "user_id option"
  | UnknownCommand
  | AiReplied

definition handleSingleEmoteCommand :: "config \<Rightarrow> user_id \<Rightarrow> string \<Rightarrow> bot_state \<Rightarrow> bot_state" where
  "handleSingleEmoteCommand cfg targetUserId emoteName s =
     (case map_of (emoteDefinitions cfg) emoteName of
        Some emoteDef \<Rightarrow>
          if truthy_str (emote_id emoteDef)
          then emit (EmoteAct targetUserId (shown (emote_id emoteDef))) s
          else s
      | None \<Rightarrow> s)"

text \<open>The \<open>emotename @username\<close> block of the public handler; \<open>None\<close> when it falls through.\<close>

definition bare_emote ::
  "(string \<Rightarrow> string) \<Rightarrow> config \<Rightarrow> bridge \<Rightarrow> user \<Rightarrow> string \<Rightarrow> bot_state
     \<Rightarrow> (route \<times> bot_state) option" where
  "bare_emote toLowerCase cfg br usr lowerCaseMessage s =
     (case emoteRegex lowerCaseMessage of
        None \<Rightarrow> None
      | Some (emoteCommand, targetUsername) \<Rightarrow>
          (case map_of (emoteDefinitions cfg) emoteCommand of
             None \<Rightarrow> None
           | Some emoteDef \<Rightarrow>
               (case find (\<lambda>(pUser, pos). toLowerCase (username pUser) = targetUsername)
                       (players_get br) of
                  None \<Rightarrow> None
                | Some (targetUserObj, pos) \<Rightarrow>
                    if hasPermission s (uid usr) Basic then
                      Some (BareEmote, handleSingleEmoteCommand cfg (uid targetUserObj) emoteCommand s)
                    else
                      Some (NoEmotePermission,
                            emit (SendPublic (''@'' @ username usr
                                    @ '' You do not have permission to emote others.'')) s))))"

text \<open>The first emote name of the configuration that the lowercased message equals.\<close>

definition loop_emote_name :: "(string \<Rightarrow> string) \<Rightarrow> config \<Rightarrow> string \<Rightarrow> string option" where
  "loop_emote_name toLowerCase cfg lowerCaseMessage =
     find (\<lambda>emoteName. lowerCaseMessage = toLowerCase emoteName) (map fst (emoteDefinitions cfg))"

definition requiredRole :: "config \<Rightarrow> string \<Rightarrow> role" where
  "requiredRole cfg command =
     (if ''!'' @ command \<in> set (commandPermissions_owner cfg) then Owner
      else if ''!'' @ command \<in> set (commandPermissions_mod cfg) then Mod
      else Basic)"

text \<open>The case labels of the two \<open>switch\<close> statements.\<close>

definition public_cases :: "string list" where
  "public_cases =
     [''help'', ''mod'', ''stop'', ''f1'', ''f2'', ''f3'', ''myid'', ''goto'', ''walk'',
      ''setbot'', ''t1'', ''all'', ''summon'', ''idban'', ''idunban'', ''idmute'',
      ''idunmute'', ''role'', ''unrole'', ''freeze'', ''unfreeze'', ''k'', ''b'', ''m'',
      ''vip'', ''invite'', ''boost'', ''voice'', ''equip'', ''remove'', ''color'', ''copy'',
      ''longsay'', ''sendfilecontent'']"

definition dm_cases :: "string list" where
  "dm_cases =
     [''help'', ''mod'', ''emotelist'', ''addowner'', ''removeowner'', ''list'', ''bad'',
      ''rbad'', ''listbadword'']"

definition chatCreate ::
  "(string \<Rightarrow> string) \<Rightarrow> config \<Rightarrow> bridge \<Rightarrow> int \<Rightarrow> user \<Rightarrow> string \<Rightarrow> bot_state
     \<Rightarrow> route \<times> bot_state" where
  "chatCreate toLowerCase cfg br now usr message s =
     (if uid usr = bot_user_id br then (Ignored, s)
      else case isMuted now (uid usr) s of
        (True, s1) \<Rightarrow> (Ignored, s1)
      | (False, s1) \<Rightarrow>
      (case isBanned now (uid usr) s1 of
        (True, s2) \<Rightarrow> (Ignored, s2)
      | (False, s2) \<Rightarrow>
      if containsBadWord toLowerCase s2 message then
        (BadWord, emit (SendPublic (''@'' @ username usr
           @ '' Warning: You used a forbidden word. Please refrain from using such language.'')) s2)
      else
      (let lowerCaseMessage = toLowerCase message in
       case bare_emote toLowerCase cfg br usr lowerCaseMessage s2 of
        Some handled \<Rightarrow> handled
      | None \<Rightarrow>
      (case loop_emote_name toLowerCase cfg lowerCaseMessage of
        Some emoteName \<Rightarrow> (Loop usr emoteName, s2)
      | None \<Rightarrow>
      if \<not> startsWith lowerCaseMessage (botPrefix cfg) then (Ignored, s2)
      else
      (case parse_command toLowerCase cfg message of (command, args, targetUsernameArg) \<Rightarrow>
       (case (if truthy_str targetUsernameArg
              then players_id br (shown targetUsernameArg) else Inr None) of
          Inl e \<Rightarrow>
            (TargetLookupFailed,
             emit (SendPublic (''@'' @ username usr @ '' Error finding target user ''
                     @ apostrophe @ shown targetUsernameArg @ apostrophe @ ''.'')) s2)
        | Inr targetUserId \<Rightarrow>
          if truthy_str targetUsernameArg \<and> \<not> truthy_str targetUserId then
            (TargetNotFound,
             emit (SendPublic (''@'' @ username usr @ '' User '' @ apostrophe
                     @ shown targetUsernameArg @ apostrophe @ '' not found in the room.'')) s2)
          else if \<not> (''!'' @ command \<in> set (public_chat_only cfg)
                      \<or> ''!'' @ command \<in> set (dm_public_chat cfg)) then
            (WrongChannel,
             emit (SendPublic (''Sorry, the command '' @ apostrophe @ botPrefix cfg @ command
                     @ apostrophe @ '' can only be used in DM.'')) s2)
          else if \<not> hasPermission s2 (uid usr) (requiredRole cfg command) then
            (InsufficientRole,
             emit (SendPublic (''@'' @ username usr
                     @ '' You do not have permission to use this command.'')) s2)
          else if command \<in> set public_cases then
            (Dispatched command args targetUsernameArg targetUserId, s2)
          else (UnknownCommand, s2)))))))"

definition messageCreate ::
  "(string \<Rightarrow> string) \<Rightarrow> config \<Rightarrow> bridge \<Rightarrow> int \<Rightarrow> user_id \<Rightarrow> string \<Rightarrow> string option
     \<Rightarrow> bot_state \<Rightarrow> route \<times> bot_state" where
  "messageCreate toLowerCase cfg br now userId conversationId messageContent s =
     (if userId = bot_user_id br then (Ignored, s)
      else case isMuted now userId s of
        (True, s1) \<Rightarrow> (Ignored, s1)
      | (False, s1) \<Rightarrow>
      (case isBanned now userId s1 of
        (True, s2) \<Rightarrow> (Ignored, s2)
      | (False, s2) \<Rightarrow>
      (let message = (case messageContent of None \<Rightarrow> [] | Some m \<Rightarrow> m);
           usr = \<lparr>uid = userId,
                  username = (if truthy_str (players_username br userId)
                              then shown (players_username br userId)
                              else ''User_'' @ take 5 userId)\<rparr>
       in
       if \<not> startsWith message (botPrefix cfg) \<and> aiReplyInWhispers cfg then
         (AiReplied, emit (SendDirect conversationId (getAiResponse br message)) s2)
       else if \<not> startsWith message (botPrefix cfg) then (Ignored, s2)
       else
       (case parse_command toLowerCase cfg message of (command, args, targetUsernameArg) \<Rightarrow>
        (case (if truthy_str targetUsernameArg
               then players_id br (shown targetUsernameArg) else Inr None) of
           Inl e \<Rightarrow>
             (TargetLookupFailed,
              emit (SendDirect conversationId (''Error finding target user '' @ apostrophe
                      @ shown targetUsernameArg @ apostrophe @ ''.'')) s2)
         | Inr targetUserId \<Rightarrow>
           if truthy_str targetUsernameArg \<and> \<not> truthy_str targetUserId then
             (TargetNotFound,
              emit (SendDirect conversationId (''User '' @ apostrophe
                      @ shown targetUsernameArg @ apostrophe @ '' not found in the room.'')) s2)
           else if \<not> (''!'' @ command \<in> set (dm_only cfg)
                       \<or> ''!'' @ command \<in> set (dm_public_chat cfg)) then
             (WrongChannel,
              emit (SendDirect conversationId (''Sorry, the command '' @ apostrophe
                      @ botPrefix cfg @ command @ apostrophe
                      @ '' works only in public chat.'')) s2)
           else if \<not> hasPermission s2 (uid usr) (requiredRole cfg command) then
             (InsufficientRole,
              emit (SendDirect conversationId
                      ''You do not have permission to use this command.'') s2)
           else if command \<in> set dm_cases then
             (Dispatched command args targetUsernameArg targetUserId, s2)
           else
             (UnknownCommand,
              emit (SendDirect conversationId (''Unknown command: '' @ apostrophe
                      @ botPrefix cfg @ command @ apostrophe
                      @ ''. Use !help for commands.'')) s2))))))"

section \<open>Emote loops\<close>

text \<open>
  \<open>emoteLoops\<close> maps a user id to the timer of that user's loop. The loop itself is the
  closure \<open>performEmote\<close>, which re-arms itself with \<open>setTimeout\<close>. It is an \<open>async\<close>
  function: it is suspended at \<open>await bot.room.players.get()\<close> and at
  \<open>await bot.player.emote(...)\<close>, and other events are handled in between. The state
  therefore holds, besides the registry, the pending timers, the invocations of
  \<open>performEmote\<close> that are suspended at one of the two calls, and the invocations of
  \<open>handleEmoteLoopCommand\<close> that are suspended at their first message.
\<close>

record loop_entry =
  timeoutId :: nat
  emoteId :: string
  duration :: "nat option"

record task =
  task_user :: user
  task_name :: string
  task_def :: emote_def

datatype tick = AwaitRoster task | AwaitEmote task

fun tick_task :: "tick \<Rightarrow> task" where
  "tick_task (AwaitRoster t) = t"
| "tick_task (AwaitEmote t) = t"

record timer =
  timer_id :: nat
  delay :: nat
  callback :: task

record loop_state =
  emoteLoops :: "user_id \<rightharpoonup> loop_entry"
  timers :: "timer list"
  ticks :: "tick list"
  resuming :: "(user \<times> string) list"
  next_timer :: nat
  sent :: "action list"

definition send :: "action \<Rightarrow> loop_state \<Rightarrow> loop_state" where
  "send a st = st\<lparr>sent := sent st @ [a]\<rparr>"

definition clearTimeout :: "nat \<Rightarrow> loop_state \<Rightarrow> loop_state" where
  "clearTimeout tid st = st\<lparr>timers := filter (\<lambda>t. timer_id t \<noteq> tid) (timers st)\<rparr>"

text \<open>\<open>clearTimeout(emoteLoops.get(id).timeoutId); emoteLoops.delete(id)\<close>.\<close>

definition cancel_entry :: "user_id \<Rightarrow> loop_entry \<Rightarrow> loop_state \<Rightarrow> loop_state" where
  "cancel_entry userId entry st =
     (let st1 = clearTimeout (timeoutId entry) st
      in st1\<lparr>emoteLoops := (emoteLoops st1)(userId := None)\<rparr>)"

definition drop_nth :: "nat \<Rightarrow> 'a list \<Rightarrow> 'a list" where
  "drop_nth i xs = take i xs @ drop (Suc i) xs"

fun nth_opt :: "'a list \<Rightarrow> nat \<Rightarrow> 'a option" where
  "nth_opt [] i = None"
| "nth_opt (a # as) 0 = Some a"
| "nth_opt (a # as) (Suc i) = nth_opt as i"

text \<open>
  \<open>handleEmoteLoopCommand\<close> from the lookup of the emote definition on: the first call
  of \<open>performEmote\<close> runs up to its roster request, then the handler sends its message.
\<close>

definition begin_loop :: "config \<Rightarrow> user \<Rightarrow> string \<Rightarrow> loop_state \<Rightarrow> loop_state" where
  "begin_loop cfg usr emoteName st =
     (case map_of (emoteDefinitions cfg) emoteName of
        None \<Rightarrow>
          send (SendPublic (''@'' @ username usr @ '' Sorry, I don't know the emote ''
                  @ apostrophe @ emoteName @ apostrophe @ ''.'')) st
      | Some emoteDef \<Rightarrow>
          if \<not> truthy_str (emote_id emoteDef) then
            send (SendPublic (''@'' @ username usr @ '' Sorry, I don't know the emote ''
                    @ apostrophe @ emoteName @ apostrophe @ ''.'')) st
          else
            send (SendPublic (''@'' @ username usr @ '' Performing '' @ apostrophe @ emoteName
                    @ apostrophe @ '' in a loop. Type '!stop' to halt.''))
              (st\<lparr>ticks := ticks st
                      @ [AwaitRoster \<lparr>task_user = usr, task_name = emoteName,
                                      task_def = emoteDef\<rparr>]\<rparr>))"

definition handleEmoteLoopCommand :: "config \<Rightarrow> user \<Rightarrow> string \<Rightarrow> loop_state \<Rightarrow> loop_state" where
  "handleEmoteLoopCommand cfg usr emoteName st =
     (case emoteLoops st (uid usr) of
        Some entry \<Rightarrow>
          (let st1 = cancel_entry (uid usr) entry st;
               st2 = send (SendPublic (''@'' @ username usr @ '' Stopped previous emote loop.'')) st1
           in st2\<lparr>resuming := resuming st2 @ [(usr, emoteName)]\<rparr>)
      | None \<Rightarrow> begin_loop cfg usr emoteName st)"

definition handleStopEmoteCommand :: "user \<Rightarrow> loop_state \<Rightarrow> loop_state" where
  "handleStopEmoteCommand usr st =
     (case emoteLoops st (uid usr) of
        Some entry \<Rightarrow>
          send (SendPublic (''@'' @ username usr @ '' Your emote loop has been stopped.''))
            (cancel_entry (uid usr) entry st)
      | None \<Rightarrow>
          send (SendPublic (''@'' @ username usr @ '' You don't have an active emote loop.'')) st)"

definition playerLeave :: "user \<Rightarrow> loop_state \<Rightarrow> loop_state" where
  "playerLeave usr st =
     (case emoteLoops st (uid usr) of
        Some entry \<Rightarrow> cancel_entry (uid usr) entry st
      | None \<Rightarrow> st)"

text \<open>\<open>performEmote\<close> once the roster has arrived, and once the emote call has settled.\<close>

definition roster_answer :: "nat \<Rightarrow> user_id list \<Rightarrow> loop_state \<Rightarrow> loop_state" where
  "roster_answer i playersInRoom st =
     (case nth_opt (ticks st) i of
        Some (AwaitRoster t) \<Rightarrow>
          if uid (task_user t) \<notin> set playersInRoom then
            (let st1 = st\<lparr>ticks := drop_nth i (ticks st)\<rparr>
             in case emoteLoops st1 (uid (task_user t)) of
                  Some entry \<Rightarrow> cancel_entry (uid (task_user t)) entry st1
                | None \<Rightarrow> st1)
          else
            send (EmoteAct (uid (task_user t)) (shown (emote_id (task_def t))))
              (st\<lparr>ticks := (ticks st)[i := AwaitEmote t]\<rparr>)
      | Some (AwaitEmote t) \<Rightarrow> st
      | None \<Rightarrow> st)"

definition emote_answer :: "nat \<Rightarrow> string option \<Rightarrow> loop_state \<Rightarrow> loop_state" where
  "emote_answer i rejection st =
     (case nth_opt (ticks st) i of
        Some (AwaitEmote t) \<Rightarrow>
          (let st1 = st\<lparr>ticks := drop_nth i (ticks st)\<rparr> in
           case rejection of
             Some message \<Rightarrow>
               (case emoteLoops st1 (uid (task_user t)) of
                  Some entry \<Rightarrow>
                    send (SendPublic (''@'' @ username (task_user t)
                            @ '' Stopped emote loop due to an error or user-leave.''))
                      (cancel_entry (uid (task_user t)) entry st1)
                | None \<Rightarrow> st1)
           | None \<Rightarrow>
               (let tid = next_timer st1;
                    ms = (case emote_duration (task_def t) of
                            None \<Rightarrow> 3000
                          | Some d \<Rightarrow> if d = 0 then 3000 else d)
                in st1\<lparr>timers := timers st1 @ [\<lparr>timer_id = tid, delay = ms, callback = t\<rparr>],
                       next_timer := Suc tid,
                       emoteLoops := (emoteLoops st1)(uid (task_user t) \<mapsto>
                         \<lparr>timeoutId = tid, emoteId = shown (emote_id (task_def t)),
                          duration = emote_duration (task_def t)\<rparr>)\<rparr>))
      | Some (AwaitRoster t) \<Rightarrow> st
      | None \<Rightarrow> st)"

definition fire :: "nat \<Rightarrow> loop_state \<Rightarrow> loop_state" where
  "fire tid st =
     (case find (\<lambda>t. timer_id t = tid) (timers st) of
        Some t \<Rightarrow>
          (clearTimeout tid st)\<lparr>ticks := ticks st @ [AwaitRoster (callback t)]\<rparr>
      | None \<Rightarrow> st)"

text \<open>
  What the event loop runs next: a chat event that starts a loop, the continuation of a
  suspended handler, the answer to a suspended \<open>performEmote\<close>, a timer, \<open>!stop\<close>, or a
  user leaving. An event that is not enabled leaves the state as it is.
\<close>

datatype loop_event =
    Start user string
  | Resume nat
  | RosterAnswer nat "user_id list"
  | EmoteAnswer nat "string option"
  | Fire nat
  | StopCmd user
  | Leave user

fun step :: "config \<Rightarrow> loop_state \<Rightarrow> loop_event \<Rightarrow> loop_state" where
  "step cfg st (Start usr emoteName) = handleEmoteLoopCommand cfg usr emoteName st"
| "step cfg st (Resume i) =
     (case nth_opt (resuming st) i of
        Some (usr, emoteName) \<Rightarrow>
          begin_loop cfg usr emoteName (st\<lparr>resuming := drop_nth i (resuming st)\<rparr>)
      | None \<Rightarrow> st)"
| "step cfg st (RosterAnswer i playersInRoom) = roster_answer i playersInRoom st"
| "step cfg st (EmoteAnswer i rejection) = emote_answer i rejection st"
| "step cfg st (Fire tid) = fire tid st"
| "step cfg st (StopCmd usr) = handleStopEmoteCommand usr st"
| "step cfg st (Leave usr) = playerLeave usr st"

definition run :: "config \<Rightarrow> loop_event list \<Rightarrow> loop_state \<Rightarrow> loop_state" where
  "run cfg events st = foldl (step cfg) st events"

definition initial_loops :: loop_state where
  "initial_loops =
     \<lparr>emoteLoops = Map.empty, timers = [], ticks = [], resuming = [], next_timer = 0, sent = []\<rparr>"

section \<open>Notions of the specification\<close>

text \<open>
  The specification speaks of a text containing a word "ignoring case", of a word being
  present in the bad-word set "ignoring case", and of the bad-word set as a set of
  lowercase strings. These definitions follow the specification's words.
\<close>

definition contains_ignoring_case :: "(string \<Rightarrow> string) \<Rightarrow> string \<Rightarrow> string \<Rightarrow> bool" where
  "contains_ignoring_case toLowerCase t w =
     (\<exists>pre mid post. t = pre @ mid @ post \<and> toLowerCase mid = toLowerCase w)"

definition present_ignoring_case :: "(string \<Rightarrow> string) \<Rightarrow> string list \<Rightarrow> string \<Rightarrow> bool" where
  "present_ignoring_case toLowerCase ws w = (\<exists>v \<in> set ws. toLowerCase v = toLowerCase w)"

definition all_lowercase :: "(string \<Rightarrow> string) \<Rightarrow> string list \<Rightarrow> bool" where
  "all_lowercase toLowerCase ws = list_all (\<lambda>v. toLowerCase v = v) ws"

text \<open>What is known of the runtime's \<open>toLowerCase\<close> on ASCII strings.\<close>

definition lowercases_ascii :: "(string \<Rightarrow> string) \<Rightarrow> bool" where
  "lowercases_ascii toLowerCase = (\<forall>s. ascii s \<longrightarrow> toLowerCase s = ascii_lower s)"

text \<open>A target user who currently holds the mod or owner role.\<close>

definition protected :: "bot_state \<Rightarrow> user_id \<Rightarrow> bool" where
  "protected s targetUserId =
     (getRole s targetUserId = Owner \<or> getRole s targetUserId = Mod)"

text \<open>
  The target reference of a command resolves: there is none, or the roster lookup
  answers a user id. A route that runs a case of the dispatch \<open>switch\<close>, and a route
  that runs any handler at all (a case of the \<open>switch\<close>, the emote handlers that come
  before the prefix test, the AI reply).
\<close>

definition target_resolves :: "bridge \<Rightarrow> string option \<Rightarrow> bool" where
  "target_resolves br targetUsernameArg =
     (if truthy_str targetUsernameArg
      then (case players_id br (shown targetUsernameArg) of
              Inl e \<Rightarrow> False
            | Inr targetUserId \<Rightarrow> truthy_str targetUserId)
      else True)"

fun is_dispatched :: "route \<Rightarrow> bool" where
  "is_dispatched (Dispatched c a t i) = True"
| "is_dispatched r = False"

fun runs_handler :: "route \<Rightarrow> bool" where
  "runs_handler (Dispatched c a t i) = True"
| "runs_handler (Loop u e) = True"
| "runs_handler BareEmote = True"
| "runs_handler AiReplied = True"
| "runs_handler r = False"

text \<open>
  The emote-loop tasks of a user that are active: the pending timers of that user's
  loops and the runs of \<open>performEmote\<close> for that user that are under way.
\<close>

definition active_tasks :: "user_id \<Rightarrow> loop_state \<Rightarrow> nat" where
  "active_tasks userId st =
     length (filter (\<lambda>t. uid (task_user (callback t)) = userId) (timers st))
     + length (filter (\<lambda>k. uid (task_user (tick_task k)) = userId) (ticks st))"

section \<open>Example inputs\<close>

definition example_state :: bot_state where
  "example_state =
     \<lparr>permissions = \<lparr>owners = [''o1''], mods = [''m1'']\<rparr>,
      bannedUsers = [''u1'' \<mapsto> \<lparr>blocked_commands = True, timestamp = Some 0, duration_minutes = Some 1\<rparr>,
                     ''u2'' \<mapsto> \<lparr>blocked_commands = True, timestamp = None, duration_minutes = None\<rparr>],
      mutedUsers = [''u3'' \<mapsto> \<lparr>muted_chat = True, mute_duration_minutes = Some 15, mute_timestamp = Some 0\<rparr>],
      badWords = [''darn''],
      frozenUsers = Map.empty,
      out = []\<rparr>"

definition example_config :: config where
  "example_config =
     \<lparr>botPrefix = ''!'',
      public_chat_only = [''!summon'', ''!k'', ''!stop''],
      dm_public_chat = [''!help'', ''!emotelist'', ''!myid''],
      dm_only = [''!addowner'', ''!list''],
      commandPermissions_mod = [''!summon'', ''!k''],
      commandPermissions_owner = [''!addowner''],
      emoteDefinitions = [(''wave'', \<lparr>emote_id = Some ''emote-wave'', emote_duration = Some 2500\<rparr>)],
      aiReplyInWhispers = False,
      movement_enabled = True,
      y_threshold = 5,
      max_distance_teleport = 20,
      messageLimits_whisper = None,
      messageLimits_dm = None\<rparr>"

definition example_bridge :: bridge where
  "example_bridge =
     \<lparr>bot_user_id = ''bot'',
      players_get = [],
      players_id = (\<lambda>n. if n = ''mia'' then Inr (Some ''m1'') else Inr None),
      players_username = (\<lambda>i. if i = ''m1'' then Some ''mia'' else None),
      players_position = (\<lambda>i. None),
      cache_position = (\<lambda>i. None),
      action_error = (\<lambda>a. None),
      getAiResponse = (\<lambda>p. ''ok'')\<rparr>"

definition frozen_state :: bot_state where
  "frozen_state = example_state\<lparr>frozenUsers := [''u4'' \<mapsto> \<lparr>x = 1, y = 2, z = 3, facing = ''FrontLeft''\<rparr>]\<rparr>"

definition example_user :: user where
  "example_user = \<lparr>uid = ''u9'', username = ''una''\<rparr>"

definition no_roles :: permissions_doc where
  "no_roles = \<lparr>owners = [], mods = []\<rparr>"

definition una_owner :: permissions_doc where
  "una_owner = \<lparr>owners = [''u9''], mods = []\<rparr>"

text \<open>A configuration with an emote whose name starts with the prefix.\<close>

definition bang_config :: config where
  "bang_config =
     example_config\<lparr>emoteDefinitions :=
       [(''!wave'', \<lparr>emote_id = Some ''emote-wave'', emote_duration = Some 2500\<rparr>)]\<rparr>"

text \<open>The word A followed by a capital sigma, in UTF-8.\<close>

definition sigma_word :: string where
  "sigma_word = [CHR ''A'', CHR 0xCE, CHR 0xA3]"

section \<open>Strings\<close>

lemma startsWith_iff: "startsWith s p \<longleftrightarrow> (\<exists>r. s = p @ r)"
  by (induction s p rule: startsWith.induct) auto

lemma str_includes_iff: "str_includes t w \<longleftrightarrow> (\<exists>pre post. t = pre @ w @ post)"
proof (induction t)
  case Nil
  then show ?case by auto
next
  case (Cons c cs)
  show ?case
  proof
    assume "str_includes (c # cs) w"
    then consider "startsWith (c # cs) w" | "str_includes cs w" by auto
    then show "\<exists>pre post. c # cs = pre @ w @ post"
    proof cases
      case 1
      then obtain r where "c # cs = w @ r" using startsWith_iff by blast
      then have "c # cs = [] @ w @ r" by simp
      then show ?thesis by blast
    next
      case 2
      then obtain pre post where "cs = pre @ w @ post" using Cons.IH by blast
      then have "c # cs = (c # pre) @ w @ post" by simp
      then show ?thesis by blast
    qed
  next
    assume "\<exists>pre post. c # cs = pre @ w @ post"
    then obtain pre post where e: "c # cs = pre @ w @ post" by blast
    show "str_includes (c # cs) w"
    proof (cases pre)
      case Nil
      with e have "startsWith (c # cs) w" using startsWith_iff by auto
      then show ?thesis by simp
    next
      case (Cons p ps)
      with e have "cs = ps @ w @ post" by simp
      then have "str_includes cs w" using Cons.IH by blast
      then show ?thesis by simp
    qed
  qed
qed

lemma scan_words_iff: "scan_words m ws \<longleftrightarrow> (\<exists>w \<in> set ws. str_includes m w)"
  by (induction ws) auto

lemma ascii_lower_append: "ascii_lower (a @ b) = ascii_lower a @ ascii_lower b"
  by (simp add: ascii_lower_def)

lemma ascii_append: "ascii (a @ b) \<longleftrightarrow> ascii a \<and> ascii b"
  by (simp add: ascii_def)

text \<open>On ASCII strings the lowercasing with final sigma is \<open>ascii_lower\<close>.\<close>

lemma lower_from_ascii: "ascii s \<Longrightarrow> lower_from prev s = ascii_lower s"
  by (induction prev s rule: lower_from.induct) (auto simp: ascii_def ascii_lower_def)

lemma lowercases_ascii_sigma: "lowercases_ascii lower_with_final_sigma"
  by (simp add: lowercases_ascii_def lower_with_final_sigma_def lower_from_ascii)

section \<open>The bad-word set\<close>

text \<open>
  \<open>addBadWord\<close> keeps the set a set of lowercase strings, for a \<open>toLowerCase\<close> that
  leaves its own results as they are.
\<close>

lemma addBadWord_keeps_lowercase:
  assumes "\<And>v. lc (lc v) = lc v" and "all_lowercase lc (badWords s)"
  shows "all_lowercase lc (badWords (snd (addBadWord lc w s)))"
  using assms by (simp add: addBadWord_def all_lowercase_def Let_def saveJson_def emit_def)

lemma word_added: "lc w \<in> set (badWords (snd (addBadWord lc w s)))"
  by (simp add: addBadWord_def Let_def saveJson_def emit_def)

lemma containsBadWord_iff:
  "containsBadWord lc s t \<longleftrightarrow> (\<exists>v \<in> set (badWords s). \<exists>pre post. lc t = pre @ v @ post)"
  by (simp add: containsBadWord_def scan_words_iff str_includes_iff)

lemma contains_lowered:
  assumes "lowercases_ascii lc" and "ascii t" and "ascii w"
    and "contains_ignoring_case lc t w"
  shows "\<exists>pre post. lc t = pre @ lc w @ post"
proof -
  from assms(4) obtain pre mid post
    where t: "t = pre @ mid @ post" and m: "lc mid = lc w"
    unfolding contains_ignoring_case_def by blast
  have a: "ascii pre" "ascii mid" "ascii post"
    using assms(2) t by (simp_all add: ascii_append)
  have "lc t = ascii_lower pre @ ascii_lower mid @ ascii_lower post"
    using assms(1,2) t unfolding lowercases_ascii_def by (simp add: ascii_lower_append)
  moreover have "ascii_lower mid = lc w"
    using assms(1) a(2) m unfolding lowercases_ascii_def by simp
  ultimately show ?thesis by auto
qed

text \<open>
  Claim C9, amended. For a word \<open>w\<close> and a text \<open>t\<close> of ASCII characters, bad-word
  matching is case-insensitive substring containment: once \<open>addBadWord w\<close> has
  succeeded, \<open>containsBadWord t\<close> is true whenever \<open>t\<close> contains \<open>w\<close> as a substring
  ignoring case. And for every word, \<open>addBadWord w\<close> returns false and leaves the state
  as it is when \<open>w\<close> is already present ignoring case in the set (a set of lowercase
  strings, as the data model has it). The theorem holds for every \<open>toLowerCase\<close> that
  is \<open>ascii_lower\<close> on ASCII strings, as the runtime's is.
\<close>

theorem bad_word_matching:
  "(lowercases_ascii lc \<and> ascii w \<and> ascii t
      \<and> fst (addBadWord lc w s) \<and> contains_ignoring_case lc t w
      \<longrightarrow> containsBadWord lc (snd (addBadWord lc w s)) t)
   \<and> (all_lowercase lc (badWords s) \<and> present_ignoring_case lc (badWords s) w
      \<longrightarrow> addBadWord lc w s = (False, s))"
proof (intro conjI impI)
  assume a: "lowercases_ascii lc \<and> ascii w \<and> ascii t
      \<and> fst (addBadWord lc w s) \<and> contains_ignoring_case lc t w"
  then have "\<exists>pre post. lc t = pre @ lc w @ post" using contains_lowered by blast
  then show "containsBadWord lc (snd (addBadWord lc w s)) t"
    unfolding containsBadWord_iff using word_added by blast
next
  assume a: "all_lowercase lc (badWords s) \<and> present_ignoring_case lc (badWords s) w"
  then obtain v where v: "v \<in> set (badWords s)" "lc v = lc w"
    unfolding present_ignoring_case_def by blast
  from a v(1) have "lc v = v"
    unfolding all_lowercase_def list_all_iff by blast
  with v have "lc w \<in> set (badWords s)" by simp
  then show "addBadWord lc w s = (False, s)" by (simp add: addBadWord_def)
qed

lemma spam_contained:
  "contains_ignoring_case lower_with_final_sigma ''no SPAMMING here'' ''Spam''"
proof -
  have "''no SPAMMING here'' = ''no '' @ ''SPAM'' @ ''MING here''
        \<and> lower_with_final_sigma ''SPAM'' = lower_with_final_sigma ''Spam''"
    by (simp add: lower_with_final_sigma_def lower_char_def)
  then show ?thesis unfolding contains_ignoring_case_def by blast
qed

theorem bad_word_matching_witness:
  "lowercases_ascii lower_with_final_sigma
   \<and> ascii ''Spam'' \<and> ascii ''no SPAMMING here''
   \<and> fst (addBadWord lower_with_final_sigma ''Spam'' example_state)
   \<and> contains_ignoring_case lower_with_final_sigma ''no SPAMMING here'' ''Spam''
   \<and> containsBadWord lower_with_final_sigma
        (snd (addBadWord lower_with_final_sigma ''Spam'' example_state)) ''no SPAMMING here''
   \<and> all_lowercase lower_with_final_sigma (badWords example_state)
   \<and> present_ignoring_case lower_with_final_sigma (badWords example_state) ''DARN''
   \<and> addBadWord lower_with_final_sigma ''DARN'' example_state = (False, example_state)"
proof -
  have h0: "ascii ''Spam''" "ascii ''no SPAMMING here''"
    by (simp_all add: ascii_def)
  have h1: "fst (addBadWord lower_with_final_sigma ''Spam'' example_state)"
    by (simp add: addBadWord_def example_state_def lower_with_final_sigma_def lower_char_def
        Let_def)
  have h2: "all_lowercase lower_with_final_sigma (badWords example_state)"
    by (simp add: all_lowercase_def example_state_def lower_with_final_sigma_def lower_char_def)
  have h3: "present_ignoring_case lower_with_final_sigma (badWords example_state) ''DARN''"
    by (simp add: present_ignoring_case_def example_state_def lower_with_final_sigma_def
        lower_char_def)
  show ?thesis
    using h0 h1 h2 h3 spam_contained lowercases_ascii_sigma
      bad_word_matching [of lower_with_final_sigma "''Spam''" "''no SPAMMING here''" example_state]
      bad_word_matching [of lower_with_final_sigma "''DARN''" "''x''" example_state]
    by blast
qed

text \<open>
  The claim as stated fails beyond ASCII, where lowercasing depends on the context: the
  word A-sigma is stored with a final sigma, the text A-sigma-B is lowercased with a
  small sigma, and so the text, which contains the word as it is, is not found to
  contain a bad word.
\<close>

theorem final_sigma_counterexample:
  "fst (addBadWord lower_with_final_sigma sigma_word example_state)
   \<and> contains_ignoring_case lower_with_final_sigma (sigma_word @ ''B'') sigma_word
   \<and> lower_with_final_sigma sigma_word = [CHR ''a'', CHR 0xCF, CHR 0x82]
   \<and> lower_with_final_sigma (sigma_word @ ''B'') = [CHR ''a'', CHR 0xCF, CHR 0x83, CHR ''b'']
   \<and> \<not> containsBadWord lower_with_final_sigma
          (snd (addBadWord lower_with_final_sigma sigma_word example_state)) (sigma_word @ ''B'')"
proof -
  have c: "contains_ignoring_case lower_with_final_sigma (sigma_word @ ''B'') sigma_word"
  proof -
    have "sigma_word @ ''B'' = [] @ sigma_word @ ''B''" by simp
    then show ?thesis unfolding contains_ignoring_case_def by blast
  qed
  have e: "fst (addBadWord lower_with_final_sigma sigma_word example_state)
     \<and> lower_with_final_sigma sigma_word = [CHR ''a'', CHR 0xCF, CHR 0x82]
     \<and> lower_with_final_sigma (sigma_word @ ''B'') = [CHR ''a'', CHR 0xCF, CHR 0x83, CHR ''b'']
     \<and> \<not> containsBadWord lower_with_final_sigma
          (snd (addBadWord lower_with_final_sigma sigma_word example_state)) (sigma_word @ ''B'')"
    by (simp add: addBadWord_def containsBadWord_def example_state_def sigma_word_def
        lower_with_final_sigma_def lower_char_def cased_def Let_def saveJson_def emit_def)
  show ?thesis using c e by simp
qed

section \<open>Lazy expiry of bans and mutes\<close>

text \<open>
  Claim C7. A ban record whose \<open>duration_minutes\<close> is null is permanent: whatever the
  current time, \<open>isBanned\<close> answers true and leaves the whole state, the record
  included, untouched (nothing is deleted, nothing is written).
\<close>

theorem permanent_ban_never_expires:
  assumes "bannedUsers s u = Some b" and "duration_minutes b = None"
  shows "isBanned now u s = (True, s)"
  using assms by (simp add: isBanned_def)

theorem permanent_ban_never_expires_witness:
  "bannedUsers example_state ''u2'' = Some \<lparr>blocked_commands = True, timestamp = None, duration_minutes = None\<rparr>
   \<and> isBanned 99999999999 ''u2'' example_state = (True, example_state)"
proof -
  have h: "bannedUsers example_state ''u2'' = Some \<lparr>blocked_commands = True, timestamp = None, duration_minutes = None\<rparr>"
    by (simp add: example_state_def)
  show ?thesis using h permanent_ban_never_expires [OF h, of 99999999999] by simp
qed

text \<open>
  Claim C1, amended. The code expires a record when the elapsed minutes are strictly
  greater than the duration. For a ban record with a non-null, non-zero duration and for
  a mute record with a non-null duration: when \<open>issued_at + duration < now\<close> the call
  answers false, deletes the record and writes the ledger to its file; when
  \<open>issued_at + duration \<ge> now\<close> (the boundary included) it answers true and changes
  nothing.
\<close>

theorem timed_record_expiry:
  "(bannedUsers s u = Some b \<and> duration_minutes b = Some d \<and> d \<noteq> 0 \<longrightarrow>
      isBanned now u s =
        (if real_of_int (date_ms (timestamp b)) + d * 60000 < real_of_int now
         then (False, s\<lparr>bannedUsers := (bannedUsers s)(u := None),
                        out := out s @ [SaveJson (BannedCommandsFile ((bannedUsers s)(u := None)))]\<rparr>)
         else (True, s)))
   \<and> (mutedUsers s u = Some m \<and> mute_duration_minutes m = Some e \<longrightarrow>
      isMuted now u s =
        (if real_of_int (date_ms (mute_timestamp m)) + e * 60000 < real_of_int now
         then (False, s\<lparr>mutedUsers := (mutedUsers s)(u := None),
                        out := out s @ [SaveJson (MutedMessagesFile ((mutedUsers s)(u := None)))]\<rparr>)
         else (True, s)))"
  by (auto simp: isBanned_def isMuted_def Let_def saveJson_def emit_def field_simps)

theorem timed_record_expiry_witness:
  "bannedUsers example_state ''u1''
     = Some \<lparr>blocked_commands = True, timestamp = Some 0, duration_minutes = Some 1\<rparr>
   \<and> isBanned 60001 ''u1'' example_state =
       (False, example_state\<lparr>bannedUsers := (bannedUsers example_state)(''u1'' := None),
          out := out example_state
            @ [SaveJson (BannedCommandsFile ((bannedUsers example_state)(''u1'' := None)))]\<rparr>)
   \<and> isBanned 60000 ''u1'' example_state = (True, example_state)
   \<and> mutedUsers example_state ''u3''
     = Some \<lparr>muted_chat = True, mute_duration_minutes = Some 15, mute_timestamp = Some 0\<rparr>
   \<and> isMuted 900001 ''u3'' example_state =
       (False, example_state\<lparr>mutedUsers := (mutedUsers example_state)(''u3'' := None),
          out := out example_state
            @ [SaveJson (MutedMessagesFile ((mutedUsers example_state)(''u3'' := None)))]\<rparr>)
   \<and> isMuted 900000 ''u3'' example_state = (True, example_state)"
proof -
  let ?b = "\<lparr>blocked_commands = True, timestamp = Some 0, duration_minutes = Some (1::real)\<rparr>"
  let ?m = "\<lparr>muted_chat = True, mute_duration_minutes = Some (15::real), mute_timestamp = Some 0\<rparr>"
  have hb: "bannedUsers example_state ''u1'' = Some ?b"
    by (simp add: example_state_def)
  have hm: "mutedUsers example_state ''u3'' = Some ?m"
    by (simp add: example_state_def)
  show ?thesis
    using hb hm
      timed_record_expiry [of example_state "''u1''" ?b 1 60001 ?m 15]
      timed_record_expiry [of example_state "''u1''" ?b 1 60000 ?m 15]
      timed_record_expiry [of example_state "''u3''" ?b 1 900001 ?m 15]
      timed_record_expiry [of example_state "''u3''" ?b 1 900000 ?m 15]
    by simp
qed

text \<open>
  The claim as stated fails on the boundary: a ban issued at time 0 for one minute is
  still in force at \<open>now = 60000\<close> ms, and a 15-minute mute issued at time 0 is still in
  force at \<open>now = 900000\<close> ms, although \<open>issued_at + duration \<le> now\<close> holds.
\<close>

theorem expiry_boundary_counterexample:
  "bannedUsers example_state ''u1''
     = Some \<lparr>blocked_commands = True, timestamp = Some 0, duration_minutes = Some 1\<rparr>
   \<and> (0::int) + 1 * 60000 \<le> 60000
   \<and> isBanned 60000 ''u1'' example_state = (True, example_state)
   \<and> mutedUsers example_state ''u3''
     = Some \<lparr>muted_chat = True, mute_duration_minutes = Some 15, mute_timestamp = Some 0\<rparr>
   \<and> (0::int) + 15 * 60000 \<le> 900000
   \<and> isMuted 900000 ''u3'' example_state = (True, example_state)"
  by (simp add: isBanned_def isMuted_def example_state_def)

section \<open>The position guard\<close>

text \<open>
  Claim C4, amended. When the movement-correction feature is enabled in the
  configuration, every movement event of a non-bot user who is in the frozen-position
  map with locked position \<open>P\<close> issues exactly one teleport of that user back to \<open>P\<close>
  if the new position differs from \<open>P\<close> by more than 0.01 on the x, y or z axis, and
  issues nothing if every axis is within 0.01. (Coordinates are exact reals here.)
\<close>

theorem frozen_user_teleported_back:
  assumes "movement_enabled cfg" and "uid usr \<noteq> bot_user_id br"
    and "frozenUsers s (uid usr) = Some P"
  shows "playerMove cfg br usr newPosition s =
           (if \<bar>x newPosition - x P\<bar> > 1 / 100 \<or> \<bar>y newPosition - y P\<bar> > 1 / 100
               \<or> \<bar>z newPosition - z P\<bar> > 1 / 100
            then s\<lparr>out := out s @ [Teleport (uid usr) (x P) (y P) (z P) (facing P)]\<rparr>
            else s)"
  using assms by (simp add: playerMove_def emit_def)

theorem frozen_user_teleported_back_witness:
  "movement_enabled example_config
   \<and> uid \<lparr>uid = ''u4'', username = ''uma''\<rparr> \<noteq> bot_user_id example_bridge
   \<and> frozenUsers frozen_state ''u4'' = Some \<lparr>x = 1, y = 2, z = 3, facing = ''FrontLeft''\<rparr>
   \<and> playerMove example_config example_bridge \<lparr>uid = ''u4'', username = ''uma''\<rparr>
        \<lparr>x = 2, y = 2, z = 3, facing = ''FrontLeft''\<rparr> frozen_state
      = frozen_state\<lparr>out := out frozen_state @ [Teleport ''u4'' 1 2 3 ''FrontLeft'']\<rparr>
   \<and> playerMove example_config example_bridge \<lparr>uid = ''u4'', username = ''uma''\<rparr>
        \<lparr>x = 1001 / 1000, y = 2, z = 3, facing = ''FrontLeft''\<rparr> frozen_state
      = frozen_state"
proof -
  let ?u = "\<lparr>uid = ''u4'', username = ''uma''\<rparr>"
  let ?P = "\<lparr>x = 1, y = 2, z = 3, facing = ''FrontLeft''\<rparr>"
  have h1: "movement_enabled example_config" by (simp add: example_config_def)
  have h2: "uid ?u \<noteq> bot_user_id example_bridge" by (simp add: example_bridge_def)
  have h3: "frozenUsers frozen_state (uid ?u) = Some ?P" by (simp add: frozen_state_def)
  show ?thesis
    using h1 h2 h3
      frozen_user_teleported_back [OF h1 h2 h3, of "\<lparr>x = 2, y = 2, z = 3, facing = ''FrontLeft''\<rparr>"]
      frozen_user_teleported_back [OF h1 h2 h3, of "\<lparr>x = 1001 / 1000, y = 2, z = 3, facing = ''FrontLeft''\<rparr>"]
    by simp
qed

text \<open>
  The claim as stated fails when the configuration disables the feature: the same
  handler then leaves a frozen user who moved by a whole unit where they are.
\<close>

theorem frozen_move_counterexample:
  "frozenUsers frozen_state ''u4'' = Some \<lparr>x = 1, y = 2, z = 3, facing = ''FrontLeft''\<rparr>
   \<and> ''u4'' \<noteq> bot_user_id example_bridge
   \<and> \<bar>(2::real) - 1\<bar> > 1 / 100
   \<and> playerMove (example_config\<lparr>movement_enabled := False\<rparr>) example_bridge
        \<lparr>uid = ''u4'', username = ''uma''\<rparr> \<lparr>x = 2, y = 2, z = 3, facing = ''FrontLeft''\<rparr>
        frozen_state
      = frozen_state"
  by (simp add: playerMove_def frozen_state_def example_bridge_def example_config_def)

section \<open>Roles and protected targets\<close>

lemma reply_public: "reply cfg usr m Public None s = emit (SendPublic m) s"
  by (simp add: reply_def)

lemma permissions_emit: "permissions (emit a s) = permissions s"
  by (simp add: emit_def)

lemma permissions_reply: "permissions (reply cfg usr m ty conv s) = permissions s"
  by (simp add: reply_def Let_def permissions_emit)

text \<open>
  Claim C6. When the target of a punitive command (\<open>idban\<close>, \<open>idmute\<close>, \<open>k\<close>, \<open>b\<close>,
  \<open>m\<close>, \<open>freeze\<close>, \<open>summon\<close>) holds the mod or owner role, the handler, called as the
  router calls it and whoever the invoking user is, does nothing but send one refusal
  message: no kick, ban, mute or teleport is issued, no record is written, and the state
  is otherwise unchanged.
\<close>

theorem protected_target_refused:
  assumes "protected s t"
  shows "handleIdBanCommand cfg now sender \<lparr>uid = t, username = n\<rparr> None Public s
           = emit (SendPublic (if hasPermission s (uid sender) Mod then ''Cannot ban owner/mod.''
                               else ''You do not have permission to use this command.'')) s
    \<and> handleIdMuteCommand cfg now sender \<lparr>uid = t, username = n\<rparr> None Public s
           = emit (SendPublic (if hasPermission s (uid sender) Mod then ''Cannot mute owner/mod.''
                               else ''You do not have permission to use this command.'')) s
    \<and> handleKickCommand br sender t s
           = emit (SendPublic (''@'' @ username sender @ '' Cannot kick owner/mod/bot.'')) s
    \<and> handleBanCommand br sender t s
           = emit (SendPublic (''@'' @ username sender @ '' Cannot ban owner/mod/bot.'')) s
    \<and> handleMuteCommand br sender t s
           = emit (SendPublic (''@'' @ username sender @ '' Cannot mute owner/mod/bot.'')) s
    \<and> handleFreezeCommand br sender t s
           = emit (SendPublic (''@'' @ username sender @ '' Cannot freeze owner/mod/bot.'')) s
    \<and> (players_id br n = Inr (Some t) \<longrightarrow> handleSummonCommand br sender n s
           = emit (SendPublic (''@'' @ username sender @ '' Cannot summon owner/mod.'')) s)"
  using assms
  by (auto simp: protected_def handleIdBanCommand_def handleIdMuteCommand_def
      handleKickCommand_def handleBanCommand_def handleMuteCommand_def
      handleFreezeCommand_def handleSummonCommand_def reply_public)

theorem protected_target_refused_witness:
  "protected example_state ''m1''
   \<and> players_id example_bridge ''mia'' = Inr (Some ''m1'')
   \<and> handleIdBanCommand example_config 0 \<lparr>uid = ''o1'', username = ''olaf''\<rparr>
        \<lparr>uid = ''m1'', username = ''mia''\<rparr> None Public example_state
      = emit (SendPublic ''Cannot ban owner/mod.'') example_state
   \<and> handleKickCommand example_bridge \<lparr>uid = ''o1'', username = ''olaf''\<rparr> ''m1'' example_state
      = emit (SendPublic ''@olaf Cannot kick owner/mod/bot.'') example_state
   \<and> handleFreezeCommand example_bridge \<lparr>uid = ''o1'', username = ''olaf''\<rparr> ''m1'' example_state
      = emit (SendPublic ''@olaf Cannot freeze owner/mod/bot.'') example_state
   \<and> handleSummonCommand example_bridge \<lparr>uid = ''o1'', username = ''olaf''\<rparr> ''mia'' example_state
      = emit (SendPublic ''@olaf Cannot summon owner/mod.'') example_state"
proof -
  have h1: "protected example_state ''m1''"
    by (simp add: protected_def getRole_def example_state_def)
  have h2: "players_id example_bridge ''mia'' = Inr (Some ''m1'')"
    by (simp add: example_bridge_def)
  have h3: "hasPermission example_state ''o1'' Mod"
    by (simp add: hasPermission_def getRole_def example_state_def)
  show ?thesis
    using h1 h2 h3
      protected_target_refused [OF h1, of example_config 0 "\<lparr>uid = ''o1'', username = ''olaf''\<rparr>"
        "''mia''" example_bridge]
    by simp
qed

lemma mods_stay_distinct:
  assumes "distinct (mods (permissions s))"
  shows "distinct (mods (permissions (handleRoleCommand cfg sender X conv ty s)))"
    and "distinct (mods (permissions (handleUnroleCommand cfg sender X conv ty s)))"
    and "distinct (mods (permissions (handleAddOwnerCommand cfg sender X conv s)))"
    and "distinct (mods (permissions (handleRemoveOwnerCommand cfg sender X conv s)))"
  using assms
  by (auto simp: handleRoleCommand_def handleUnroleCommand_def handleAddOwnerCommand_def
      handleRemoveOwnerCommand_def Let_def permissions_reply saveJson_def permissions_emit)

lemma handleAddOwnerCommand_permissions:
  assumes "hasPermission s (uid sender) Owner"
    and "uid X \<notin> set (owners (permissions s))"
  shows "permissions (handleAddOwnerCommand cfg sender X conv s)
           = \<lparr>owners = owners (permissions s) @ [uid X],
              mods = remove1 (uid X) (mods (permissions s))\<rparr>"
  using assms
  by (simp add: handleAddOwnerCommand_def Let_def permissions_reply saveJson_def
      permissions_emit remove1_idem)

text \<open>
  Claim C8. When \<open>handleAddOwnerCommand\<close> succeeds on a user \<open>X\<close> (the sender is an owner
  and \<open>X\<close> is not yet one), \<open>X\<close> is in the owners list and not in the mods list
  afterwards, also when \<open>X\<close> was a mod before, and owners and mods stay disjoint if they
  were. The mods list is a set, that is, it has no duplicate entry; lemma
  \<open>mods_stay_distinct\<close> below shows that the role commands keep it so.
\<close>

theorem grant_owner_leaves_mods:
  assumes "hasPermission s (uid sender) Owner"
    and "uid X \<notin> set (owners (permissions s))"
    and "distinct (mods (permissions s))"
  shows "uid X \<in> set (owners (permissions (handleAddOwnerCommand cfg sender X conv s)))
    \<and> uid X \<notin> set (mods (permissions (handleAddOwnerCommand cfg sender X conv s)))
    \<and> (set (owners (permissions s)) \<inter> set (mods (permissions s)) = {}
        \<longrightarrow> set (owners (permissions (handleAddOwnerCommand cfg sender X conv s)))
            \<inter> set (mods (permissions (handleAddOwnerCommand cfg sender X conv s))) = {})"
  using assms by (auto simp: handleAddOwnerCommand_permissions)

theorem grant_owner_leaves_mods_witness:
  "hasPermission example_state (uid \<lparr>uid = ''o1'', username = ''olaf''\<rparr>) Owner
   \<and> ''m1'' \<in> set (mods (permissions example_state))
   \<and> ''m1'' \<notin> set (owners (permissions example_state))
   \<and> distinct (mods (permissions example_state))
   \<and> set (owners (permissions example_state)) \<inter> set (mods (permissions example_state)) = {}
   \<and> ''m1'' \<in> set (owners (permissions (handleAddOwnerCommand example_config
        \<lparr>uid = ''o1'', username = ''olaf''\<rparr> \<lparr>uid = ''m1'', username = ''mia''\<rparr> (Some ''c1'') example_state)))
   \<and> ''m1'' \<notin> set (mods (permissions (handleAddOwnerCommand example_config
        \<lparr>uid = ''o1'', username = ''olaf''\<rparr> \<lparr>uid = ''m1'', username = ''mia''\<rparr> (Some ''c1'') example_state)))
   \<and> set (owners (permissions (handleAddOwnerCommand example_config
        \<lparr>uid = ''o1'', username = ''olaf''\<rparr> \<lparr>uid = ''m1'', username = ''mia''\<rparr> (Some ''c1'') example_state)))
      \<inter> set (mods (permissions (handleAddOwnerCommand example_config
        \<lparr>uid = ''o1'', username = ''olaf''\<rparr> \<lparr>uid = ''m1'', username = ''mia''\<rparr> (Some ''c1'') example_state))) = {}"
proof -
  let ?o = "\<lparr>uid = ''o1'', username = ''olaf''\<rparr>"
  let ?m = "\<lparr>uid = ''m1'', username = ''mia''\<rparr>"
  have h1: "hasPermission example_state (uid ?o) Owner"
    by (simp add: hasPermission_def getRole_def example_state_def)
  have h2: "uid ?m \<notin> set (owners (permissions example_state))"
    by (simp add: example_state_def)
  have h3: "distinct (mods (permissions example_state))"
    by (simp add: example_state_def)
  have h4: "set (owners (permissions example_state)) \<inter> set (mods (permissions example_state)) = {}"
    by (simp add: example_state_def)
  have h5: "''m1'' \<in> set (mods (permissions example_state))"
    by (simp add: example_state_def)
  show ?thesis
    using h1 h2 h3 h4 h5 grant_owner_leaves_mods [OF h1 h2 h3, of example_config "Some ''c1''"]
    by simp
qed

section \<open>The command router\<close>

text \<open>
  The checks that come before the scope check do not read the roles, and a command that
  the channel's scope lists do not allow leaves the router with the wrong-channel reply.
\<close>

lemma isMuted_permissions:
  "isMuted now u (s\<lparr>permissions := p\<rparr>) = (fst (isMuted now u s), (snd (isMuted now u s))\<lparr>permissions := p\<rparr>)"
  by (simp add: isMuted_def Let_def saveJson_def emit_def split: option.splits)

lemma isBanned_permissions:
  "isBanned now u (s\<lparr>permissions := p\<rparr>) = (fst (isBanned now u s), (snd (isBanned now u s))\<lparr>permissions := p\<rparr>)"
  by (simp add: isBanned_def Let_def saveJson_def emit_def split: option.splits)

lemma emit_permissions: "emit a (s\<lparr>permissions := p\<rparr>) = (emit a s)\<lparr>permissions := p\<rparr>"
  by (simp add: emit_def)

lemma containsBadWord_permissions: "containsBadWord lc (s\<lparr>permissions := p\<rparr>) m = containsBadWord lc s m"
  by (simp add: containsBadWord_def)

lemma bare_emote_None_permissions:
  "bare_emote lc cfg br usr m s = None \<Longrightarrow> bare_emote lc cfg br usr m (s\<lparr>permissions := p\<rparr>) = None"
  by (auto simp: bare_emote_def split: option.splits prod.splits if_splits)

lemma messageCreate_wrong_channel:
  assumes "userId \<noteq> bot_user_id br"
    and "isMuted now userId s = (False, s1)"
    and "isBanned now userId s1 = (False, s2)"
    and "startsWith message (botPrefix cfg)"
    and "parse_command lc cfg message = (command, args, tgt)"
    and "target_resolves br tgt"
    and "''!'' @ command \<notin> set (dm_only cfg)"
    and "''!'' @ command \<notin> set (dm_public_chat cfg)"
  shows "messageCreate lc cfg br now userId conv (Some message) s =
           (WrongChannel,
            emit (SendDirect conv (''Sorry, the command '' @ apostrophe @ botPrefix cfg
                    @ command @ apostrophe @ '' works only in public chat.'')) s2)"
  using assms
  by (auto simp: messageCreate_def target_resolves_def Let_def split: sum.splits if_splits)

lemma chatCreate_wrong_channel:
  assumes "uid usr \<noteq> bot_user_id br"
    and "isMuted now (uid usr) s = (False, s1)"
    and "isBanned now (uid usr) s1 = (False, s2)"
    and "\<not> containsBadWord lc s2 message"
    and "bare_emote lc cfg br usr (lc message) s2 = None"
    and "loop_emote_name lc cfg (lc message) = None"
    and "startsWith (lc message) (botPrefix cfg)"
    and "parse_command lc cfg message = (command, args, tgt)"
    and "target_resolves br tgt"
    and "''!'' @ command \<notin> set (public_chat_only cfg)"
    and "''!'' @ command \<notin> set (dm_public_chat cfg)"
  shows "chatCreate lc cfg br now usr message s =
           (WrongChannel,
            emit (SendPublic (''Sorry, the command '' @ apostrophe @ botPrefix cfg
                    @ command @ apostrophe @ '' can only be used in DM.'')) s2)"
  using assms
  by (auto simp: chatCreate_def target_resolves_def Let_def split: sum.splits if_splits)

lemma never_dispatched_dm:
  assumes "parse_command lc cfg message = (command, args, tgt)"
    and "''!'' @ command \<notin> set (dm_only cfg)"
    and "''!'' @ command \<notin> set (dm_public_chat cfg)"
  shows "\<not> is_dispatched (fst (messageCreate lc cfg br now userId conv (Some message) s))"
  using assms
  by (auto simp: messageCreate_def Let_def split: sum.splits if_splits prod.splits bool.splits)

lemma bare_emote_route:
  "bare_emote lc cfg br usr m s = Some (r, s') \<Longrightarrow> \<not> is_dispatched r"
  by (auto simp: bare_emote_def split: option.splits prod.splits if_splits)

lemma never_dispatched_public:
  assumes "parse_command lc cfg message = (command, args, tgt)"
    and "''!'' @ command \<notin> set (public_chat_only cfg)"
    and "''!'' @ command \<notin> set (dm_public_chat cfg)"
  shows "\<not> is_dispatched (fst (chatCreate lc cfg br now usr message s))"
  using assms
  by (auto simp: chatCreate_def Let_def dest: bare_emote_route
      split: sum.splits if_splits prod.splits bool.splits option.splits)

lemma bare_emote_None_any:
  "bare_emote lc cfg br usr m s = None \<Longrightarrow> bare_emote lc cfg br usr m s' = None"
  by (auto simp: bare_emote_def split: option.splits prod.splits if_splits)

lemma no_handler_dm:
  assumes "parse_command lc cfg message = (command, args, tgt)"
    and "''!'' @ command \<notin> set (dm_only cfg)"
    and "''!'' @ command \<notin> set (dm_public_chat cfg)"
    and "startsWith message (botPrefix cfg)"
  shows "\<not> runs_handler (fst (messageCreate lc cfg br now userId conv (Some message) s))"
  using assms
  by (auto simp: messageCreate_def Let_def split: sum.splits if_splits prod.splits bool.splits)

lemma no_handler_public:
  assumes "parse_command lc cfg message = (command, args, tgt)"
    and "''!'' @ command \<notin> set (public_chat_only cfg)"
    and "''!'' @ command \<notin> set (dm_public_chat cfg)"
    and "bare_emote lc cfg br usr (lc message) s = None"
    and "loop_emote_name lc cfg (lc message) = None"
  shows "\<not> runs_handler (fst (chatCreate lc cfg br now usr message s))"
proof -
  have b: "\<And>s'. bare_emote lc cfg br usr (lc message) s' = None"
    using assms(4) by (rule bare_emote_None_any)
  show ?thesis
    using assms(1,2,3,5) b
    by (auto simp: chatCreate_def Let_def
        split: sum.splits if_splits prod.splits bool.splits)
qed

text \<open>The example messages, evaluated.\<close>

lemma parse_summon: "parse_command lower_with_final_sigma example_config ''!summon @mia'' = (''summon'', [''@mia''], Some ''mia'')"
  by (simp add: parse_command_def example_config_def split_spaces_def trim_def js_space_def
      lower_with_final_sigma_def lower_char_def)

lemma parse_addowner: "parse_command lower_with_final_sigma example_config ''!addowner @mia'' = (''addowner'', [''@mia''], Some ''mia'')"
  by (simp add: parse_command_def example_config_def split_spaces_def trim_def js_space_def
      lower_with_final_sigma_def lower_char_def)

lemma parse_dance: "parse_command lower_with_final_sigma example_config ''!Dance now'' = (''dance'', [''now''], None)"
  by (simp add: parse_command_def example_config_def split_spaces_def trim_def js_space_def
      lower_with_final_sigma_def lower_char_def)



lemma una_not_muted: "isMuted 0 ''u9'' example_state = (False, example_state)"
  by (simp add: isMuted_def example_state_def)

lemma una_not_banned: "isBanned 0 ''u9'' example_state = (False, example_state)"
  by (simp add: isBanned_def example_state_def)

lemma mia_resolves: "target_resolves example_bridge (Some ''mia'')"
  by (simp add: target_resolves_def example_bridge_def)

lemma addowner_no_emote:
  "\<not> containsBadWord lower_with_final_sigma example_state ''!addowner @mia''
   \<and> bare_emote lower_with_final_sigma example_config example_bridge example_user (lower_with_final_sigma ''!addowner @mia'') example_state = None
   \<and> loop_emote_name lower_with_final_sigma example_config (lower_with_final_sigma ''!addowner @mia'') = None
   \<and> startsWith (lower_with_final_sigma ''!addowner @mia'') (botPrefix example_config)"
  by (simp add: containsBadWord_def example_state_def bare_emote_def emoteRegex_def
      word_char_def loop_emote_name_def example_config_def lower_with_final_sigma_def lower_char_def)

lemma dance_no_emote:
  "\<not> containsBadWord lower_with_final_sigma example_state ''!Dance now''
   \<and> bare_emote lower_with_final_sigma example_config example_bridge example_user (lower_with_final_sigma ''!Dance now'') example_state = None
   \<and> loop_emote_name lower_with_final_sigma example_config (lower_with_final_sigma ''!Dance now'') = None
   \<and> startsWith (lower_with_final_sigma ''!Dance now'') (botPrefix example_config)
   \<and> startsWith ''!Dance now'' (botPrefix example_config)"
  by (simp add: containsBadWord_def example_state_def bare_emote_def emoteRegex_def
      word_char_def loop_emote_name_def example_config_def lower_with_final_sigma_def lower_char_def)


lemma parse_summon_zed:
  "parse_command lower_with_final_sigma example_config ''!summon @zed''
     = (''summon'', [''@zed''], Some ''zed'')"
  by (simp add: parse_command_def example_config_def split_spaces_def trim_def js_space_def
      lower_with_final_sigma_def lower_char_def)

lemma summon_zed_not_found:
  "messageCreate lower_with_final_sigma example_config example_bridge 0 ''u9'' ''c1''
     (Some ''!summon @zed'') example_state
   = (TargetNotFound,
      emit (SendDirect ''c1'' ''User 'zed' not found in the room.'') example_state)"
proof -
  have h: "''u9'' \<noteq> bot_user_id example_bridge"
    "players_id example_bridge ''zed'' = Inr None"
    "botPrefix example_config = ''!''" "\<not> aiReplyInWhispers example_config"
    by (simp_all add: example_bridge_def example_config_def)
  show ?thesis
    using h una_not_muted una_not_banned parse_summon_zed
    by (simp add: messageCreate_def apostrophe_def)
qed

lemma muted_sender_ignored:
  "messageCreate lower_with_final_sigma example_config example_bridge 0 ''u3'' ''c1''
     (Some ''!summon'') example_state
   = (Ignored, example_state)"
  by (simp add: messageCreate_def isMuted_def example_state_def example_bridge_def)

lemma bad_word_first:
  "chatCreate lower_with_final_sigma example_config example_bridge 0 example_user
     ''!dance darn'' example_state
   = (BadWord,
      emit (SendPublic
        ''@una Warning: You used a forbidden word. Please refrain from using such language.'')
        example_state)"
proof -
  have u: "uid example_user = ''u9''" "username example_user = ''una''"
    "uid example_user \<noteq> bot_user_id example_bridge"
    by (simp_all add: example_user_def example_bridge_def)
  have b: "containsBadWord lower_with_final_sigma example_state ''!dance darn''"
    by (simp add: containsBadWord_def example_state_def lower_with_final_sigma_def
        lower_char_def)
  show ?thesis
    using u b una_not_muted una_not_banned by (simp add: chatCreate_def)
qed

lemma parse_dance_zed:
  "parse_command lower_with_final_sigma example_config ''!dance @zed''
     = (''dance'', [''@zed''], Some ''zed'')"
  by (simp add: parse_command_def example_config_def split_spaces_def trim_def js_space_def
      lower_with_final_sigma_def lower_char_def)

lemma dance_zed_not_found:
  "messageCreate lower_with_final_sigma example_config example_bridge 0 ''u9'' ''c1''
     (Some ''!dance @zed'') example_state
   = (TargetNotFound,
      emit (SendDirect ''c1'' ''User 'zed' not found in the room.'') example_state)"
proof -
  have h: "''u9'' \<noteq> bot_user_id example_bridge"
    "players_id example_bridge ''zed'' = Inr None"
    "botPrefix example_config = ''!''" "\<not> aiReplyInWhispers example_config"
    by (simp_all add: example_bridge_def example_config_def)
  show ?thesis
    using h una_not_muted una_not_banned parse_dance_zed
    by (simp add: messageCreate_def apostrophe_def)
qed

lemma bang_wave_loops:
  "chatCreate lower_with_final_sigma bang_config example_bridge 0 example_user
     ''!wave'' example_state
   = (Loop example_user ''!wave'', example_state)"
proof -
  have u: "uid example_user = ''u9''"
    "uid example_user \<noteq> bot_user_id example_bridge"
    by (simp_all add: example_user_def example_bridge_def)
  have b: "\<not> containsBadWord lower_with_final_sigma example_state ''!wave''"
    by (simp add: containsBadWord_def example_state_def lower_with_final_sigma_def
        lower_char_def)
  have e: "bare_emote lower_with_final_sigma bang_config example_bridge example_user
             (lower_with_final_sigma ''!wave'') example_state = None"
    "loop_emote_name lower_with_final_sigma bang_config (lower_with_final_sigma ''!wave'')
       = Some ''!wave''"
    by (simp_all add: bare_emote_def emoteRegex_def word_char_def loop_emote_name_def
        bang_config_def example_config_def lower_with_final_sigma_def lower_char_def)
  show ?thesis
    using u b e una_not_muted una_not_banned by (simp add: chatCreate_def)
qed

lemma parse_bang_wave:
  "parse_command lower_with_final_sigma bang_config ''!wave'' = (''wave'', [], None)"
  by (simp add: parse_command_def bang_config_def example_config_def split_spaces_def trim_def
      js_space_def lower_with_final_sigma_def lower_char_def)

text \<open>
  Claim C2, amended. The checks that the router makes before the scope check come
  first: a prefixed command whose sender is not the bot and is neither muted nor banned,
  whose message (in public chat) holds no bad word and is not taken as a bare emote or
  an emote name, and whose target reference, if it has one, resolves, is answered in a
  channel whose scope lists do not allow it with the wrong-channel rejection, and
  nothing else happens. This holds whatever the roles document \<open>p\<close> is, so the sender's
  role is never consulted and a basic user and an owner get the same reply. First
  conjunct: direct message; second: public chat.
\<close>

theorem wrong_channel_precedes_role:
  "(userId \<noteq> bot_user_id br
    \<and> isMuted now userId s = (False, s1) \<and> isBanned now userId s1 = (False, s2)
    \<and> startsWith message (botPrefix cfg)
    \<and> parse_command lc cfg message = (command, args, tgt) \<and> target_resolves br tgt
    \<and> ''!'' @ command \<notin> set (dm_only cfg) \<and> ''!'' @ command \<notin> set (dm_public_chat cfg)
    \<longrightarrow> messageCreate lc cfg br now userId conv (Some message) (s\<lparr>permissions := p\<rparr>) =
          (WrongChannel,
           emit (SendDirect conv (''Sorry, the command '' @ apostrophe @ botPrefix cfg
                   @ command @ apostrophe @ '' works only in public chat.''))
             (s2\<lparr>permissions := p\<rparr>)))
   \<and> (uid usr \<noteq> bot_user_id br
    \<and> isMuted now (uid usr) s = (False, s1) \<and> isBanned now (uid usr) s1 = (False, s2)
    \<and> \<not> containsBadWord lc s2 message
    \<and> bare_emote lc cfg br usr (lc message) s2 = None
    \<and> loop_emote_name lc cfg (lc message) = None
    \<and> startsWith (lc message) (botPrefix cfg)
    \<and> parse_command lc cfg message = (command, args, tgt) \<and> target_resolves br tgt
    \<and> ''!'' @ command \<notin> set (public_chat_only cfg) \<and> ''!'' @ command \<notin> set (dm_public_chat cfg)
    \<longrightarrow> chatCreate lc cfg br now usr message (s\<lparr>permissions := p\<rparr>) =
          (WrongChannel,
           emit (SendPublic (''Sorry, the command '' @ apostrophe @ botPrefix cfg
                   @ command @ apostrophe @ '' can only be used in DM.''))
             (s2\<lparr>permissions := p\<rparr>)))"
proof (intro conjI impI)
  assume a: "userId \<noteq> bot_user_id br
    \<and> isMuted now userId s = (False, s1) \<and> isBanned now userId s1 = (False, s2)
    \<and> startsWith message (botPrefix cfg)
    \<and> parse_command lc cfg message = (command, args, tgt) \<and> target_resolves br tgt
    \<and> ''!'' @ command \<notin> set (dm_only cfg) \<and> ''!'' @ command \<notin> set (dm_public_chat cfg)"
  have m: "isMuted now userId (s\<lparr>permissions := p\<rparr>) = (False, s1\<lparr>permissions := p\<rparr>)"
    using a by (simp add: isMuted_permissions)
  have b: "isBanned now userId (s1\<lparr>permissions := p\<rparr>) = (False, s2\<lparr>permissions := p\<rparr>)"
    using a by (simp add: isBanned_permissions)
  show "messageCreate lc cfg br now userId conv (Some message) (s\<lparr>permissions := p\<rparr>) =
          (WrongChannel,
           emit (SendDirect conv (''Sorry, the command '' @ apostrophe @ botPrefix cfg
                   @ command @ apostrophe @ '' works only in public chat.''))
             (s2\<lparr>permissions := p\<rparr>))"
    using a by (intro messageCreate_wrong_channel [OF _ m b, where args = args and tgt = tgt]) simp_all
next
  assume a: "uid usr \<noteq> bot_user_id br
    \<and> isMuted now (uid usr) s = (False, s1) \<and> isBanned now (uid usr) s1 = (False, s2)
    \<and> \<not> containsBadWord lc s2 message
    \<and> bare_emote lc cfg br usr (lc message) s2 = None
    \<and> loop_emote_name lc cfg (lc message) = None
    \<and> startsWith (lc message) (botPrefix cfg)
    \<and> parse_command lc cfg message = (command, args, tgt) \<and> target_resolves br tgt
    \<and> ''!'' @ command \<notin> set (public_chat_only cfg) \<and> ''!'' @ command \<notin> set (dm_public_chat cfg)"
  have m: "isMuted now (uid usr) (s\<lparr>permissions := p\<rparr>) = (False, s1\<lparr>permissions := p\<rparr>)"
    using a by (simp add: isMuted_permissions)
  have b: "isBanned now (uid usr) (s1\<lparr>permissions := p\<rparr>) = (False, s2\<lparr>permissions := p\<rparr>)"
    using a by (simp add: isBanned_permissions)
  show "chatCreate lc cfg br now usr message (s\<lparr>permissions := p\<rparr>) =
          (WrongChannel,
           emit (SendPublic (''Sorry, the command '' @ apostrophe @ botPrefix cfg
                   @ command @ apostrophe @ '' can only be used in DM.''))
             (s2\<lparr>permissions := p\<rparr>))"
    using a
    by (intro chatCreate_wrong_channel [OF _ m b, where args = args and tgt = tgt])
      (simp_all add: containsBadWord_permissions bare_emote_None_permissions)
qed

theorem wrong_channel_precedes_role_witness:
  "''u9'' \<noteq> bot_user_id example_bridge
   \<and> isMuted 0 ''u9'' example_state = (False, example_state)
   \<and> isBanned 0 ''u9'' example_state = (False, example_state)
   \<and> startsWith ''!summon @mia'' (botPrefix example_config)
   \<and> parse_command lower_with_final_sigma example_config ''!summon @mia'' = (''summon'', [''@mia''], Some ''mia'')
   \<and> parse_command lower_with_final_sigma example_config ''!addowner @mia'' = (''addowner'', [''@mia''], Some ''mia'')
   \<and> target_resolves example_bridge (Some ''mia'')
   \<and> ''!summon'' \<notin> set (dm_only example_config)
   \<and> ''!summon'' \<notin> set (dm_public_chat example_config)
   \<and> ''!addowner'' \<notin> set (public_chat_only example_config)
   \<and> ''!addowner'' \<notin> set (dm_public_chat example_config)
   \<and> messageCreate lower_with_final_sigma example_config example_bridge 0 ''u9'' ''c1'' (Some ''!summon @mia'')
        (example_state\<lparr>permissions := no_roles\<rparr>)
      = (WrongChannel,
         emit (SendDirect ''c1'' ''Sorry, the command '!summon' works only in public chat.'')
           (example_state\<lparr>permissions := no_roles\<rparr>))
   \<and> messageCreate lower_with_final_sigma example_config example_bridge 0 ''u9'' ''c1'' (Some ''!summon @mia'')
        (example_state\<lparr>permissions := una_owner\<rparr>)
      = (WrongChannel,
         emit (SendDirect ''c1'' ''Sorry, the command '!summon' works only in public chat.'')
           (example_state\<lparr>permissions := una_owner\<rparr>))
   \<and> chatCreate lower_with_final_sigma example_config example_bridge 0 example_user ''!addowner @mia''
        (example_state\<lparr>permissions := no_roles\<rparr>)
      = (WrongChannel,
         emit (SendPublic ''Sorry, the command '!addowner' can only be used in DM.'')
           (example_state\<lparr>permissions := no_roles\<rparr>))
   \<and> chatCreate lower_with_final_sigma example_config example_bridge 0 example_user ''!addowner @mia''
        (example_state\<lparr>permissions := una_owner\<rparr>)
      = (WrongChannel,
         emit (SendPublic ''Sorry, the command '!addowner' can only be used in DM.'')
           (example_state\<lparr>permissions := una_owner\<rparr>))"
proof -
  have u: "uid example_user = ''u9''" by (simp add: example_user_def)
  have h1: "''u9'' \<noteq> bot_user_id example_bridge" by (simp add: example_bridge_def)
  have h2: "startsWith ''!summon @mia'' (botPrefix example_config)"
    by (simp add: example_config_def)
  have h3: "''!'' @ ''summon'' \<notin> set (dm_only example_config)
            \<and> ''!'' @ ''summon'' \<notin> set (dm_public_chat example_config)
            \<and> ''!'' @ ''addowner'' \<notin> set (public_chat_only example_config)
            \<and> ''!'' @ ''addowner'' \<notin> set (dm_public_chat example_config)"
    by (simp add: example_config_def)
  have h4: "botPrefix example_config = ''!''" by (simp add: example_config_def)
  have dm: "\<And>p. messageCreate lower_with_final_sigma example_config example_bridge 0 ''u9'' ''c1''
              (Some ''!summon @mia'') (example_state\<lparr>permissions := p\<rparr>)
            = (WrongChannel,
               emit (SendDirect ''c1'' ''Sorry, the command '!summon' works only in public chat.'')
                 (example_state\<lparr>permissions := p\<rparr>))"
    using h1 h2 h3 h4 parse_summon una_not_muted una_not_banned mia_resolves
      wrong_channel_precedes_role [where userId = "''u9''" and br = example_bridge
        and now = 0 and s = example_state and ?s1.0 = example_state and ?s2.0 = example_state
        and message = "''!summon @mia''" and cfg = example_config and command = "''summon''"
        and args = "[''@mia'']" and tgt = "Some ''mia''" and conv = "''c1''"
        and usr = example_user]
    by (simp add: apostrophe_def)
  have pub: "\<And>p. chatCreate lower_with_final_sigma example_config example_bridge 0 example_user ''!addowner @mia''
              (example_state\<lparr>permissions := p\<rparr>)
            = (WrongChannel,
               emit (SendPublic ''Sorry, the command '!addowner' can only be used in DM.'')
                 (example_state\<lparr>permissions := p\<rparr>))"
    using u h1 h3 h4 parse_addowner una_not_muted una_not_banned mia_resolves addowner_no_emote
      wrong_channel_precedes_role [where userId = "''u9''" and br = example_bridge
        and now = 0 and s = example_state and ?s1.0 = example_state and ?s2.0 = example_state
        and message = "''!addowner @mia''" and cfg = example_config and command = "''addowner''"
        and args = "[''@mia'']" and tgt = "Some ''mia''" and conv = "''c1''"
        and usr = example_user]
    by (simp add: apostrophe_def)
  show ?thesis
    using h1 h2 h3 parse_summon parse_addowner una_not_muted una_not_banned mia_resolves dm pub
    by simp
qed

text \<open>
  The claim as stated fails for a command that does not reach the scope check. By direct
  message \<open>!summon\<close> is out of scope, yet \<open>!summon @zed\<close> with nobody called zed in the room
  is answered "not found", and \<open>!summon\<close> from a muted sender is not answered at all. In
  public chat \<open>!dance\<close> is out of scope, yet \<open>!dance darn\<close> is answered with the bad-word
  warning; and with an emote named \<open>!wave\<close> the message \<open>!wave\<close> starts an emote loop.
\<close>

theorem wrong_channel_counterexample:
  "''!summon'' \<notin> set (dm_only example_config)
   \<and> ''!summon'' \<notin> set (dm_public_chat example_config)
   \<and> startsWith ''!summon @zed'' (botPrefix example_config)
   \<and> messageCreate lower_with_final_sigma example_config example_bridge 0 ''u9'' ''c1''
        (Some ''!summon @zed'') example_state
      = (TargetNotFound,
         emit (SendDirect ''c1'' ''User 'zed' not found in the room.'') example_state)
   \<and> messageCreate lower_with_final_sigma example_config example_bridge 0 ''u3'' ''c1''
        (Some ''!summon'') example_state
      = (Ignored, example_state)
   \<and> ''!dance'' \<notin> set (public_chat_only example_config)
   \<and> ''!dance'' \<notin> set (dm_public_chat example_config)
   \<and> chatCreate lower_with_final_sigma example_config example_bridge 0 example_user
        ''!dance darn'' example_state
      = (BadWord,
         emit (SendPublic
           ''@una Warning: You used a forbidden word. Please refrain from using such language.'')
           example_state)
   \<and> ''!wave'' \<notin> set (public_chat_only bang_config)
   \<and> ''!wave'' \<notin> set (dm_public_chat bang_config)
   \<and> chatCreate lower_with_final_sigma bang_config example_bridge 0 example_user
        ''!wave'' example_state
      = (Loop example_user ''!wave'', example_state)"
proof -
  have h: "''!summon'' \<notin> set (dm_only example_config)"
    "''!summon'' \<notin> set (dm_public_chat example_config)"
    "startsWith ''!summon @zed'' (botPrefix example_config)"
    "''!dance'' \<notin> set (public_chat_only example_config)"
    "''!dance'' \<notin> set (dm_public_chat example_config)"
    "''!wave'' \<notin> set (public_chat_only bang_config)"
    "''!wave'' \<notin> set (dm_public_chat bang_config)"
    by (simp_all add: example_config_def bang_config_def)
  show ?thesis
    using h summon_zed_not_found muted_sender_ignored bad_word_first bang_wave_loops
    by simp
qed

text \<open>
  Claim C10, amended. A prefixed command whose name is in none of the three scope lists
  and whose message reaches the scope check (the sender is not the bot and is neither
  muted nor banned, the message in public chat holds no bad word and is not taken as a
  bare emote or an emote name, the target reference, if any, resolves) is rejected before
  the role check and the dispatch: in public chat with the reply that it can only be
  used in DM, in a direct message with the reply that it works only in public chat.
  Whether or not the message reaches the scope check, no case of either dispatch
  \<open>switch\<close> runs for such a command, and no handler at all runs for it, except that in
  public chat a message that is itself a bare emote or an emote name is handed to the
  emote handlers, which come before the prefix test.
\<close>

theorem unlisted_command_rejected:
  assumes "parse_command lc cfg message = (command, args, tgt)"
    and "''!'' @ command \<notin> set (public_chat_only cfg)"
    and "''!'' @ command \<notin> set (dm_public_chat cfg)"
    and "''!'' @ command \<notin> set (dm_only cfg)"
  shows "(uid usr \<noteq> bot_user_id br
          \<and> isMuted now (uid usr) s = (False, s1) \<and> isBanned now (uid usr) s1 = (False, s2)
          \<and> \<not> containsBadWord lc s2 message
          \<and> bare_emote lc cfg br usr (lc message) s2 = None
          \<and> loop_emote_name lc cfg (lc message) = None
          \<and> startsWith (lc message) (botPrefix cfg)
          \<and> target_resolves br tgt
          \<longrightarrow> chatCreate lc cfg br now usr message s =
                (WrongChannel,
                 emit (SendPublic (''Sorry, the command '' @ apostrophe @ botPrefix cfg
                         @ command @ apostrophe @ '' can only be used in DM.'')) s2))
    \<and> (uid usr \<noteq> bot_user_id br
          \<and> isMuted now (uid usr) s = (False, s1) \<and> isBanned now (uid usr) s1 = (False, s2)
          \<and> startsWith message (botPrefix cfg)
          \<and> target_resolves br tgt
          \<longrightarrow> messageCreate lc cfg br now (uid usr) conv (Some message) s =
                (WrongChannel,
                 emit (SendDirect conv (''Sorry, the command '' @ apostrophe @ botPrefix cfg
                         @ command @ apostrophe @ '' works only in public chat.'')) s2))
    \<and> \<not> is_dispatched (fst (chatCreate lc cfg br now usr message s))
    \<and> \<not> is_dispatched (fst (messageCreate lc cfg br now (uid usr) conv (Some message) s))
    \<and> (bare_emote lc cfg br usr (lc message) s = None
          \<and> loop_emote_name lc cfg (lc message) = None
          \<longrightarrow> \<not> runs_handler (fst (chatCreate lc cfg br now usr message s)))
    \<and> (startsWith message (botPrefix cfg)
          \<longrightarrow> \<not> runs_handler (fst (messageCreate lc cfg br now (uid usr) conv (Some message) s)))"
proof (intro conjI impI)
  assume a: "uid usr \<noteq> bot_user_id br
          \<and> isMuted now (uid usr) s = (False, s1) \<and> isBanned now (uid usr) s1 = (False, s2)
          \<and> \<not> containsBadWord lc s2 message
          \<and> bare_emote lc cfg br usr (lc message) s2 = None
          \<and> loop_emote_name lc cfg (lc message) = None
          \<and> startsWith (lc message) (botPrefix cfg)
          \<and> target_resolves br tgt"
  then show "chatCreate lc cfg br now usr message s =
                (WrongChannel,
                 emit (SendPublic (''Sorry, the command '' @ apostrophe @ botPrefix cfg
                         @ command @ apostrophe @ '' can only be used in DM.'')) s2)"
    using assms
    by (intro chatCreate_wrong_channel [where ?s1.0 = s1 and args = args and tgt = tgt]) simp_all
next
  assume a: "uid usr \<noteq> bot_user_id br
          \<and> isMuted now (uid usr) s = (False, s1) \<and> isBanned now (uid usr) s1 = (False, s2)
          \<and> startsWith message (botPrefix cfg)
          \<and> target_resolves br tgt"
  then show "messageCreate lc cfg br now (uid usr) conv (Some message) s =
                (WrongChannel,
                 emit (SendDirect conv (''Sorry, the command '' @ apostrophe @ botPrefix cfg
                         @ command @ apostrophe @ '' works only in public chat.'')) s2)"
    using assms
    by (intro messageCreate_wrong_channel [where ?s1.0 = s1 and args = args and tgt = tgt]) simp_all
next
  show "\<not> is_dispatched (fst (chatCreate lc cfg br now usr message s))"
    using assms by (intro never_dispatched_public [where args = args and tgt = tgt]) simp_all
next
  show "\<not> is_dispatched (fst (messageCreate lc cfg br now (uid usr) conv (Some message) s))"
    using assms by (intro never_dispatched_dm [where args = args and tgt = tgt]) simp_all
next
  assume "bare_emote lc cfg br usr (lc message) s = None
          \<and> loop_emote_name lc cfg (lc message) = None"
  then show "\<not> runs_handler (fst (chatCreate lc cfg br now usr message s))"
    using assms by (intro no_handler_public [where args = args and tgt = tgt]) simp_all
next
  assume "startsWith message (botPrefix cfg)"
  then show "\<not> runs_handler (fst (messageCreate lc cfg br now (uid usr) conv (Some message) s))"
    using assms by (intro no_handler_dm [where args = args and tgt = tgt]) simp_all
qed

theorem unlisted_command_rejected_witness:
  "parse_command lower_with_final_sigma example_config ''!Dance now'' = (''dance'', [''now''], None)
   \<and> ''!dance'' \<notin> set (public_chat_only example_config)
   \<and> ''!dance'' \<notin> set (dm_public_chat example_config)
   \<and> ''!dance'' \<notin> set (dm_only example_config)
   \<and> uid example_user \<noteq> bot_user_id example_bridge
   \<and> isMuted 0 (uid example_user) example_state = (False, example_state)
   \<and> isBanned 0 (uid example_user) example_state = (False, example_state)
   \<and> target_resolves example_bridge None
   \<and> chatCreate lower_with_final_sigma example_config example_bridge 0 example_user ''!Dance now'' example_state
      = (WrongChannel,
         emit (SendPublic ''Sorry, the command '!dance' can only be used in DM.'') example_state)
   \<and> messageCreate lower_with_final_sigma example_config example_bridge 0 (uid example_user) ''c1''
        (Some ''!Dance now'') example_state
      = (WrongChannel,
         emit (SendDirect ''c1'' ''Sorry, the command '!dance' works only in public chat.'')
           example_state)
   \<and> \<not> is_dispatched (fst (chatCreate lower_with_final_sigma example_config example_bridge 0 example_user
          ''!Dance now'' example_state))
   \<and> \<not> is_dispatched (fst (messageCreate lower_with_final_sigma example_config example_bridge 0 (uid example_user)
          ''c1'' (Some ''!Dance now'') example_state))
   \<and> \<not> runs_handler (fst (chatCreate lower_with_final_sigma example_config example_bridge 0
          example_user ''!Dance now'' example_state))
   \<and> \<not> runs_handler (fst (messageCreate lower_with_final_sigma example_config example_bridge 0
          (uid example_user) ''c1'' (Some ''!Dance now'') example_state))"
proof -
  have u: "uid example_user = ''u9''" by (simp add: example_user_def)
  have h1: "uid example_user \<noteq> bot_user_id example_bridge"
    by (simp add: example_bridge_def example_user_def)
  have h2: "''!'' @ ''dance'' \<notin> set (public_chat_only example_config)"
    and h3: "''!'' @ ''dance'' \<notin> set (dm_public_chat example_config)"
    and h4: "''!'' @ ''dance'' \<notin> set (dm_only example_config)"
    and h5: "botPrefix example_config = ''!''"
    by (simp_all add: example_config_def)
  have h6: "target_resolves example_bridge None" by (simp add: target_resolves_def)
  have m: "isMuted 0 (uid example_user) example_state = (False, example_state)"
    and b: "isBanned 0 (uid example_user) example_state = (False, example_state)"
    using una_not_muted una_not_banned u by simp_all
  show ?thesis
    using h1 h2 h3 h4 h5 h6 m b dance_no_emote parse_dance
      unlisted_command_rejected [OF parse_dance h2 h3 h4, of example_user example_bridge 0
        example_state example_state example_state "''c1''"]
    by (simp add: apostrophe_def)
qed

text \<open>
  The claim as stated fails: \<open>!dance\<close> is in none of the three scope lists, yet in public
  chat \<open>!dance darn\<close> is answered with the bad-word warning and by direct message
  \<open>!dance @zed\<close> is answered "not found"; and with an emote named \<open>!wave\<close>, in none of the
  lists either, the public message \<open>!wave\<close> runs the emote-loop handler.
\<close>

theorem unlisted_command_counterexample:
  "''!dance'' \<notin> set (public_chat_only example_config)
   \<and> ''!dance'' \<notin> set (dm_public_chat example_config)
   \<and> ''!dance'' \<notin> set (dm_only example_config)
   \<and> chatCreate lower_with_final_sigma example_config example_bridge 0 example_user
        ''!dance darn'' example_state
      = (BadWord,
         emit (SendPublic
           ''@una Warning: You used a forbidden word. Please refrain from using such language.'')
           example_state)
   \<and> messageCreate lower_with_final_sigma example_config example_bridge 0 ''u9'' ''c1''
        (Some ''!dance @zed'') example_state
      = (TargetNotFound,
         emit (SendDirect ''c1'' ''User 'zed' not found in the room.'') example_state)
   \<and> parse_command lower_with_final_sigma bang_config ''!wave'' = (''wave'', [], None)
   \<and> ''!wave'' \<notin> set (public_chat_only bang_config)
   \<and> ''!wave'' \<notin> set (dm_public_chat bang_config)
   \<and> ''!wave'' \<notin> set (dm_only bang_config)
   \<and> chatCreate lower_with_final_sigma bang_config example_bridge 0 example_user
        ''!wave'' example_state
      = (Loop example_user ''!wave'', example_state)
   \<and> runs_handler (fst (chatCreate lower_with_final_sigma bang_config example_bridge 0
        example_user ''!wave'' example_state))"
proof -
  have h: "''!dance'' \<notin> set (public_chat_only example_config)"
    "''!dance'' \<notin> set (dm_public_chat example_config)"
    "''!dance'' \<notin> set (dm_only example_config)"
    "''!wave'' \<notin> set (public_chat_only bang_config)"
    "''!wave'' \<notin> set (dm_public_chat bang_config)"
    "''!wave'' \<notin> set (dm_only bang_config)"
    by (simp_all add: example_config_def bang_config_def)
  show ?thesis
    using h bad_word_first dance_zed_not_found bang_wave_loops parse_bang_wave
    by simp
qed




section \<open>Emote loops\<close>

text \<open>
  A start for a user whose loop is in the registry cancels the registered timer and
  removes the registry entry, in the synchronous part of the handler.
\<close>

lemma start_cancels_registered_timer:
  assumes "emoteLoops st (uid usr) = Some entry"
  shows "emoteLoops (step cfg st (Start usr emoteName)) (uid usr) = None
    \<and> timeoutId entry \<notin> timer_id ` set (timers (step cfg st (Start usr emoteName)))
    \<and> ticks (step cfg st (Start usr emoteName)) = ticks st"
  using assms
  by (auto simp: handleEmoteLoopCommand_def cancel_entry_def clearTimeout_def send_def Let_def)

text \<open>
  Claim C3 says that at most one emote-loop task per user is active at any time, so
  that two starts in succession leave exactly one. The code registers a loop only when
  its first emote call has resolved, and a start cancels only a registered, pending
  timer. When the second start for user \<open>u9\<close> is handled while the first run of
  \<open>performEmote\<close> is still waiting for the roster, nothing is cancelled: two runs are
  under way, both arm a timer (ids 0 and 1), the registry holds only timer 1, and after
  \<open>!stop\<close> timer 0 is still pending with no registry entry left.
\<close>

theorem two_starts_two_loops:
  "active_tasks ''u9'' (run example_config
      [Start example_user ''wave'', Start example_user ''wave''] initial_loops) = 2
   \<and> active_tasks ''u9'' (run example_config
      [Start example_user ''wave'', Start example_user ''wave'',
       RosterAnswer 0 [''u9''], RosterAnswer 1 [''u9''],
       EmoteAnswer 0 None, EmoteAnswer 0 None] initial_loops) = 2
   \<and> map timer_id (timers (run example_config
      [Start example_user ''wave'', Start example_user ''wave'',
       RosterAnswer 0 [''u9''], RosterAnswer 1 [''u9''],
       EmoteAnswer 0 None, EmoteAnswer 0 None] initial_loops)) = [0, 1]
   \<and> map timer_id (timers (run example_config
      [Start example_user ''wave'', Start example_user ''wave'',
       RosterAnswer 0 [''u9''], RosterAnswer 1 [''u9''],
       EmoteAnswer 0 None, EmoteAnswer 0 None, StopCmd example_user] initial_loops)) = [0]
   \<and> emoteLoops (run example_config
      [Start example_user ''wave'', Start example_user ''wave'',
       RosterAnswer 0 [''u9''], RosterAnswer 1 [''u9''],
       EmoteAnswer 0 None, EmoteAnswer 0 None, StopCmd example_user] initial_loops) ''u9'' = None"
  by (simp add: run_def initial_loops_def example_user_def example_config_def
      handleEmoteLoopCommand_def begin_loop_def roster_answer_def emote_answer_def
      handleStopEmoteCommand_def cancel_entry_def clearTimeout_def send_def drop_nth_def
      active_tasks_def Let_def)

text \<open>
  For contrast: when the second start is handled only after the first run has armed and
  registered its timer, the registered timer is cancelled and one loop remains.
\<close>

lemma starts_in_turn_leave_one:
  "active_tasks ''u9'' (run example_config
      [Start example_user ''wave'', RosterAnswer 0 [''u9''], EmoteAnswer 0 None,
       Start example_user ''wave'', Resume 0, RosterAnswer 0 [''u9''], EmoteAnswer 0 None]
      initial_loops) = 1
   \<and> map timer_id (timers (run example_config
      [Start example_user ''wave'', RosterAnswer 0 [''u9''], EmoteAnswer 0 None,
       Start example_user ''wave'', Resume 0, RosterAnswer 0 [''u9''], EmoteAnswer 0 None]
      initial_loops)) = [1]"
  by (simp add: run_def initial_loops_def example_user_def example_config_def
      handleEmoteLoopCommand_def begin_loop_def roster_answer_def emote_answer_def
      cancel_entry_def clearTimeout_def send_def drop_nth_def active_tasks_def Let_def)

end
